theory Spec2Isabelle
  imports Main
begin

section \<open>Values of the host language\<close>

text \<open>
  The JavaScript values that flow through \<^verbatim>\<open>src/index.ts\<close>: what a close handler may
  return, and what is stored in \<^verbatim>\<open>process.exitCode\<close>.
\<close>

datatype jsval =
    JUndefined
  | JNull
  | JBool bool
  | JNum int
  | JStr string
  | JPromise jsval

type_synonym signal = string

text \<open>Decimal rendering of a non-negative number, as JavaScript's ToString gives it.\<close>

definition digit_char :: "nat \<Rightarrow> char" where
  "digit_char d = char_of (48 + d)"

fun digits :: "nat \<Rightarrow> string" where
  "digits n = (if n < 10 then [digit_char n] else digits (n div 10) @ [digit_char (n mod 10)])"

definition num_to_string :: "int \<Rightarrow> string" where
  "num_to_string i = (if i < 0 then CHR ''-'' # digits (nat (- i)) else digits (nat i))"

text \<open>
  The \<^verbatim>\<open>+\<close> operator on a number and a signal name. With a string operand it
  concatenates, after converting the number to a string; only two numbers are added.
\<close>

fun js_add :: "jsval \<Rightarrow> jsval \<Rightarrow> jsval" where
  "js_add (JNum a) (JNum b) = JNum (a + b)"
| "js_add (JNum a) (JStr s) = JStr (num_to_string a @ s)"
| "js_add (JStr s) (JNum b) = JStr (s @ num_to_string b)"
| "js_add (JStr s) (JStr t) = JStr (s @ t)"
| "js_add _ _ = JUndefined"

text \<open>Truthiness of \<^verbatim>\<open>signal: NodeJS.Signals | null\<close>: null and the empty string are falsy.\<close>

fun truthy_signal :: "signal option \<Rightarrow> bool" where
  "truthy_signal None = False"
| "truthy_signal (Some s) = (s \<noteq> [])"

section \<open>The stdio policy\<close>

text \<open>
  \<^verbatim>\<open>cp.StdioOptions\<close> is either one mode string or an array with one entry per
  descriptor; an entry is a mode string, a descriptor number, a stream object, null or
  undefined.
\<close>

datatype stdio_entry =
    SMode string
  | SFd int
  | SStream nat
  | SNull
  | SUndefined

datatype stdio =
    StdioMode string
  | StdioList "stdio_entry list"

text \<open>
  \<^verbatim>\<open>getStdio(base, withIpc)\<close>, lines 198 to 212. \<^verbatim>\<open>base.indexOf("ipc") < 0\<close> compares
  with strict equality, so only the string entry \<^verbatim>\<open>"ipc"\<close> counts as present.
\<close>

definition getStdio :: "stdio option \<Rightarrow> bool \<Rightarrow> stdio" where
  "getStdio base0 withIpc =
     (let base = (case base0 of None \<Rightarrow> StdioMode ''inherit'' | Some b \<Rightarrow> b)
      in if \<not> withIpc then base
         else (case base of
                 StdioMode s \<Rightarrow> StdioList [SMode s, SMode s, SMode s, SMode ''ipc'']
               | StdioList xs \<Rightarrow>
                   if SMode ''ipc'' \<notin> set xs then StdioList (xs @ [SMode ''ipc''])
                   else StdioList xs))"

section \<open>Processes, listeners and recorded calls\<close>

text \<open>
  A \<^verbatim>\<open>ProcessLike\<close> object is either the global \<^verbatim>\<open>process\<close> or an object the
  caller passes as \<^verbatim>\<open>options.parent\<close>. The test \<^verbatim>\<open>parent === process\<close> is equality
  of these references.
\<close>

datatype pref = Process | Fake nat

datatype event = EvSignal signal | EvMessage | EvExit | EvClose

text \<open>
  Every closure of the source that is registered as a listener. The number is the
  allocation that created the closure, so two closures of different calls differ.
  \<open>Foreign\<close> is a listener installed by other code.
\<close>

datatype listener =
    SigListener nat signal
  | ChildListener nat pref
  | ParentListener nat
  | OnParentExit nat
  | OnClose nat
  | ChildHangup nat
  | LegacyOnClose nat
  | Foreign nat

datatype endpoint =
    ParentStdout pref
  | ParentStderr pref
  | ParentStdin pref
  | ChildStdout
  | ChildStderr
  | ChildStdin

datatype spawn_fn = CpSpawn | CrossSpawn | CustomSpawn nat

text \<open>
  A named field of an options object: the key is absent, or the object has the key and
  it holds \<^verbatim>\<open>undefined\<close>, or it holds a value. Reading the field gives \<^verbatim>\<open>undefined\<close> in
  the first two cases; enumerating the keys tells them apart.
\<close>

datatype 'a field = Absent | Undef | Present 'a

fun field_value :: "'a field \<Rightarrow> 'a option" where
  "field_value Absent = None"
| "field_value Undef = None"
| "field_value (Present v) = Some v"

text \<open>
  \<^verbatim>\<open>SpawnOptions\<close>: the two fields of this package, \<^verbatim>\<open>stdio\<close>, and the other fields of
  \<^verbatim>\<open>cp.SpawnOptions\<close> (\<^verbatim>\<open>cwd\<close>, \<^verbatim>\<open>env\<close>, ...) by name.
\<close>

record spawn_options =
  opt_parent :: "pref field"
  opt_spawn :: "spawn_fn field"
  opt_stdio :: "stdio field"
  opt_rest :: "(string \<times> jsval) list"

text \<open>
  A close function (\<^verbatim>\<open>CloseFn\<close>): the two fields assigned by \<^verbatim>\<open>Object.assign\<close> and the
  closure itself, given by the variables it captures. The closure of \<^verbatim>\<open>proxy\<close> captures
  \<^verbatim>\<open>parent\<close>; the closure of \<^verbatim>\<open>foregroundChild\<close> captures \<^verbatim>\<open>unproxySignals\<close> (its map of
  listeners) and \<^verbatim>\<open>childHangup\<close>.
\<close>

datatype close_body =
    ModernClose pref
  | LegacyClose "(signal \<times> listener) list" listener

record close_fn =
  cf_code :: "int option"
  cf_signal :: "signal option"
  cf_body :: close_body

text \<open>
  A close handler (\<^verbatim>\<open>CloseHandler = (done: CloseFn) => any\<close>) is user code. The handlers
  modelled are the synchronous ones that may assign \<^verbatim>\<open>process.exitCode\<close>, then invoke
  \<^verbatim>\<open>done\<close> some number of times, then return a value.
\<close>

record handler =
  h_set_exit :: "jsval option"
  h_invocations :: nat
  h_result :: jsval

datatype arg = AStr string | AArr "string list" | AFun handler | AUndefined

type_synonym payload = "nat \<times> nat option"

datatype call =
    On pref event listener
  | RemoveListener pref event listener
  | RemoveAllListeners pref event
  | Exit pref jsval
  | Kill pref nat signal
  | Send pref payload
  | ChildOn event listener
  | ChildRemoveListener event listener
  | ChildKill signal
  | ChildSend payload
  | Pipe endpoint endpoint
  | Unpipe endpoint endpoint
  | SetTimeout nat
  | SetExitCode jsval
  | SpawnCall spawn_fn arg "arg list" spawn_options
  | Resolve close_fn
  | CallCb close_fn

record proc =
  pid :: nat
  has_send :: bool
  listeners :: "(event \<times> listener) list"

text \<open>
  The child object returned by the process-creation function. A stream field is true
  when \<^verbatim>\<open>typeof child.stdout === "object" && child.stdout !== null\<close> holds for it.
\<close>

record child_proc =
  c_stdout :: bool
  c_stderr :: bool
  c_stdin :: bool
  c_listeners :: "(event \<times> listener) list"

text \<open>
  The state the code runs in. \<open>signal_list\<close> is what \<^verbatim>\<open>signalExit.signals()\<close> returns,
  \<open>win32\<close> is \<^verbatim>\<open>process.platform === "win32"\<close>, \<open>exitCode\<close> is \<^verbatim>\<open>process.exitCode\<close>,
  \<open>resolved\<close> is the state of the promise of \<^verbatim>\<open>proxy\<close>, and \<open>trace\<close> lists every call
  made on the parent, the child and the host, in order.
\<close>

record world =
  procs :: "pref \<Rightarrow> proc"
  child :: child_proc
  pipes :: "(endpoint \<times> endpoint) list"
  signal_list :: "signal list"
  win32 :: bool
  exitCode :: jsval
  exited :: bool
  resolved :: "close_fn option"
  next_id :: nat
  trace :: "call list"

section \<open>Host operations\<close>

text \<open>
  The semantics of the host objects, as Node's EventEmitter and streams have it:
  \<^verbatim>\<open>on\<close> appends a listener, \<^verbatim>\<open>removeListener\<close> removes the most recently added
  instance of it (nothing when it is not registered), \<^verbatim>\<open>removeAllListeners\<close> removes
  every listener of the event, \<^verbatim>\<open>pipe\<close> adds a destination and \<^verbatim>\<open>unpipe\<close> removes one.
\<close>

definition remove_last :: "'a \<Rightarrow> 'a list \<Rightarrow> 'a list" where
  "remove_last x xs = rev (remove1 x (rev xs))"

definition record_call :: "call \<Rightarrow> world \<Rightarrow> world" where
  "record_call c w = w\<lparr>trace := trace w @ [c]\<rparr>"

definition alloc :: "world \<Rightarrow> world" where
  "alloc w = w\<lparr>next_id := Suc (next_id w)\<rparr>"

definition upd_proc :: "pref \<Rightarrow> (proc \<Rightarrow> proc) \<Rightarrow> world \<Rightarrow> world" where
  "upd_proc p f w = w\<lparr>procs := (procs w)(p := f (procs w p))\<rparr>"

definition proc_on :: "pref \<Rightarrow> event \<Rightarrow> listener \<Rightarrow> world \<Rightarrow> world" where
  "proc_on p ev l w =
     record_call (On p ev l) (upd_proc p (\<lambda>pr. pr\<lparr>listeners := listeners pr @ [(ev, l)]\<rparr>) w)"

definition proc_removeListener :: "pref \<Rightarrow> event \<Rightarrow> listener \<Rightarrow> world \<Rightarrow> world" where
  "proc_removeListener p ev l w =
     record_call (RemoveListener p ev l)
       (upd_proc p (\<lambda>pr. pr\<lparr>listeners := remove_last (ev, l) (listeners pr)\<rparr>) w)"

definition proc_removeAllListeners :: "pref \<Rightarrow> event \<Rightarrow> world \<Rightarrow> world" where
  "proc_removeAllListeners p ev w =
     record_call (RemoveAllListeners p ev)
       (upd_proc p (\<lambda>pr. pr\<lparr>listeners := filter (\<lambda>el. fst el \<noteq> ev) (listeners pr)\<rparr>) w)"

definition proc_send :: "pref \<Rightarrow> payload \<Rightarrow> world \<Rightarrow> world" where
  "proc_send p m w = record_call (Send p m) w"

definition proc_kill :: "pref \<Rightarrow> nat \<Rightarrow> signal \<Rightarrow> world \<Rightarrow> world" where
  "proc_kill p target sig w = record_call (Kill p target sig) w"

definition child_on :: "event \<Rightarrow> listener \<Rightarrow> world \<Rightarrow> world" where
  "child_on ev l w =
     record_call (ChildOn ev l)
       (w\<lparr>child := (child w)\<lparr>c_listeners := c_listeners (child w) @ [(ev, l)]\<rparr>\<rparr>)"

definition child_removeListener :: "event \<Rightarrow> listener \<Rightarrow> world \<Rightarrow> world" where
  "child_removeListener ev l w =
     record_call (ChildRemoveListener ev l)
       (w\<lparr>child := (child w)\<lparr>c_listeners := remove_last (ev, l) (c_listeners (child w))\<rparr>\<rparr>)"

definition child_kill :: "signal \<Rightarrow> world \<Rightarrow> world" where
  "child_kill sig w = record_call (ChildKill sig) w"

definition child_send :: "payload \<Rightarrow> world \<Rightarrow> world" where
  "child_send m w = record_call (ChildSend m) w"

definition pipe :: "endpoint \<Rightarrow> endpoint \<Rightarrow> world \<Rightarrow> world" where
  "pipe src dst w = record_call (Pipe src dst) (w\<lparr>pipes := pipes w @ [(src, dst)]\<rparr>)"

definition unpipe :: "endpoint \<Rightarrow> endpoint \<Rightarrow> world \<Rightarrow> world" where
  "unpipe src dst w = record_call (Unpipe src dst) (w\<lparr>pipes := remove1 (src, dst) (pipes w)\<rparr>)"

definition setTimeout :: "nat \<Rightarrow> world \<Rightarrow> world" where
  "setTimeout ms w = record_call (SetTimeout ms) w"

definition set_exitCode :: "jsval \<Rightarrow> world \<Rightarrow> world" where
  "set_exitCode v w = record_call (SetExitCode v) (w\<lparr>exitCode := v\<rparr>)"

text \<open>
  What each listener of the source does when it fires: the signal listeners of
  \<^verbatim>\<open>proxySignals\<close> (line 339), \<^verbatim>\<open>onParentExit\<close> (line 79) and \<^verbatim>\<open>childHangup\<close> (line 295)
  without an argument, the two message listeners of \<^verbatim>\<open>proxyMessages\<close> (lines 366 to 372)
  with the message and its handle.
\<close>

fun run_listener :: "listener \<Rightarrow> world \<Rightarrow> world" where
  "run_listener (SigListener i sig) w = child_kill sig w"
| "run_listener (OnParentExit i) w = child_kill ''SIGHUP'' w"
| "run_listener (ChildHangup i) w = child_kill ''SIGHUP'' w"
| "run_listener _ w = w"

fun run_message_listener :: "listener \<Rightarrow> payload \<Rightarrow> world \<Rightarrow> world" where
  "run_message_listener (ChildListener i p) m w = proc_send p m w"
| "run_message_listener (ParentListener i) m w = child_send m w"
| "run_message_listener _ m w = w"

definition listeners_for :: "event \<Rightarrow> (event \<times> listener) list \<Rightarrow> listener list" where
  "listeners_for ev ls = map snd (filter (\<lambda>el. fst el = ev) ls)"

definition emit :: "pref \<Rightarrow> event \<Rightarrow> world \<Rightarrow> world" where
  "emit p ev w = fold run_listener (listeners_for ev (listeners (procs w p))) w"

text \<open>
  \<^verbatim>\<open>parent.exit(code)\<close>. On the real process it emits the exit event to the registered
  listeners and the process ends; on an object supplied by the caller it is whatever that
  object does, and only the call is recorded.
\<close>

definition proc_exit :: "pref \<Rightarrow> jsval \<Rightarrow> world \<Rightarrow> world" where
  "proc_exit p c w =
     (let w1 = record_call (Exit p c) w
      in if p = Process then (emit Process EvExit w1)\<lparr>exited := True\<rparr> else w1)"

section \<open>The three relays\<close>

text \<open>\<^verbatim>\<open>Map.prototype.set\<close>: a present key keeps its position and gets the new value.\<close>

fun map_set :: "'k \<Rightarrow> 'v \<Rightarrow> ('k \<times> 'v) list \<Rightarrow> ('k \<times> 'v) list" where
  "map_set k v [] = [(k, v)]"
| "map_set k v ((k', v') # ps) = (if k = k' then (k, v) # ps else (k', v') # map_set k v ps)"

text \<open>
  \<^verbatim>\<open>proxySignals\<close>, lines 335 to 351. The loop creates one closure per element of the
  signal list, stores it in the map and registers it on the parent. The function returns
  the closure \<^verbatim>\<open>unproxySignals\<close>, which is determined by the parent and the map.
\<close>

fun proxySignals_loop ::
  "pref \<Rightarrow> signal list \<Rightarrow> (signal \<times> listener) list \<Rightarrow> world \<Rightarrow> (signal \<times> listener) list \<times> world" where
  "proxySignals_loop parent [] m w = (m, w)"
| "proxySignals_loop parent (sig # sigs) m w =
     (let l = SigListener (next_id w) sig;
          w1 = alloc w;
          m1 = map_set sig l m;
          w2 = proc_on parent (EvSignal sig) l w1
      in proxySignals_loop parent sigs m1 w2)"

definition proxySignals :: "pref \<Rightarrow> world \<Rightarrow> (signal \<times> listener) list \<times> world" where
  "proxySignals parent w = proxySignals_loop parent (signal_list w) [] w"

fun unproxySignals :: "pref \<Rightarrow> (signal \<times> listener) list \<Rightarrow> world \<Rightarrow> world" where
  "unproxySignals parent [] w = w"
| "unproxySignals parent ((sig, l) # ls) w =
     unproxySignals parent ls (proc_removeListener parent (EvSignal sig) l w)"

text \<open>
  \<^verbatim>\<open>proxyMessages\<close>, lines 361 to 383. Without \<^verbatim>\<open>parent.send\<close> it returns \<^verbatim>\<open>noop\<close>;
  otherwise the closure that removes the two listeners.
\<close>

datatype unproxy_messages = Noop | UnproxyMessages pref listener listener

definition proxyMessages :: "pref \<Rightarrow> world \<Rightarrow> unproxy_messages \<times> world" where
  "proxyMessages parent w =
     (if \<not> has_send (procs w parent) then (Noop, w)
      else
        (let childListener = ChildListener (next_id w) parent;
             parentListener = ParentListener (next_id w);
             w1 = alloc w;
             w2 = child_on EvMessage childListener w1;
             w3 = proc_on parent EvMessage parentListener w2
         in (UnproxyMessages parent childListener parentListener, w3)))"

fun unproxyMessages :: "unproxy_messages \<Rightarrow> world \<Rightarrow> world" where
  "unproxyMessages Noop w = w"
| "unproxyMessages (UnproxyMessages parent childListener parentListener) w =
     proc_removeListener parent EvMessage parentListener
       (child_removeListener EvMessage childListener w)"

text \<open>\<^verbatim>\<open>proxyStreams\<close> and its closure \<^verbatim>\<open>unproxyStreams\<close>, lines 393 to 417.\<close>

definition proxyStreams :: "pref \<Rightarrow> world \<Rightarrow> world" where
  "proxyStreams parent w =
     (let w1 = (if c_stdout (child w) then pipe ChildStdout (ParentStdout parent) w else w);
          w2 = (if c_stderr (child w1) then pipe ChildStderr (ParentStderr parent) w1 else w1)
      in if c_stdin (child w2) then pipe (ParentStdin parent) ChildStdin w2 else w2)"

definition unproxyStreams :: "pref \<Rightarrow> world \<Rightarrow> world" where
  "unproxyStreams parent w =
     (let w1 = (if c_stdout (child w) then unpipe ChildStdout (ParentStdout parent) w else w);
          w2 = (if c_stderr (child w1) then unpipe ChildStderr (ParentStderr parent) w1 else w1)
      in if c_stdin (child w2) then unpipe (ParentStdin parent) ChildStdin w2 else w2)"

section \<open>The modern entry point\<close>

text \<open>
  \<^verbatim>\<open>proxy\<close>, lines 70 to 109. The result is the set of variables that \<^verbatim>\<open>onClose\<close>
  captures, with the world after the five registrations.
\<close>

record proxy_env =
  pe_parent :: pref
  pe_unproxySignals :: "(signal \<times> listener) list"
  pe_unproxyMessages :: unproxy_messages
  pe_onParentExit :: listener
  pe_onClose :: listener

definition proxy :: "pref \<Rightarrow> world \<Rightarrow> proxy_env \<times> world" where
  "proxy parent w =
     (let (us, w1) = proxySignals parent w;
          w2 = proxyStreams parent w1;
          (um, w3) = proxyMessages parent w2;
          i = next_id w3;
          w4 = alloc w3;
          w5 = proc_on parent EvExit (OnParentExit i) w4;
          w6 = child_on EvClose (OnClose i) w5
      in (\<lparr>pe_parent = parent, pe_unproxySignals = us, pe_unproxyMessages = um,
           pe_onParentExit = OnParentExit i, pe_onClose = OnClose i\<rparr>, w6))"

text \<open>Resolving a promise: the first value stays.\<close>

definition resolve :: "close_fn \<Rightarrow> world \<Rightarrow> world" where
  "resolve cf w =
     record_call (Resolve cf)
       (w\<lparr>resolved := (case resolved w of None \<Rightarrow> Some cf | Some x \<Rightarrow> Some x)\<rparr>)"

definition code_value :: "int option \<Rightarrow> jsval" where
  "code_value code = (case code of None \<Rightarrow> JNull | Some c \<Rightarrow> JNum c)"

text \<open>
  Invoking a close function: lines 89 to 104 for the closure of \<^verbatim>\<open>proxy\<close>, lines 304 to
  319 for the closure of \<^verbatim>\<open>foregroundChild\<close>.
\<close>

definition invoke :: "close_fn \<Rightarrow> world \<Rightarrow> world" where
  "invoke cf w =
     (case cf_body cf of
        ModernClose parent \<Rightarrow>
          (case cf_signal cf of
             Some sig \<Rightarrow>
               (let w1 = (if parent = Process then setTimeout 200 w else w)
                in proc_kill parent (pid (procs w1 parent)) sig w1)
           | None \<Rightarrow> proc_exit parent (code_value (cf_code cf)) w)
      | LegacyClose ls hangup \<Rightarrow>
          (let w1 = unproxySignals Process ls w;
               w2 = proc_removeListener Process EvExit hangup w1
           in if truthy_signal (cf_signal cf) then
                (let w3 = setTimeout 200 w2
                 in proc_kill Process (pid (procs w3 Process)) (the (cf_signal cf)) w3)
              else proc_exit Process (exitCode w2) w2))"

text \<open>\<^verbatim>\<open>onClose\<close>, lines 83 to 107.\<close>

definition onClose :: "proxy_env \<Rightarrow> int option \<Rightarrow> signal option \<Rightarrow> world \<Rightarrow> world" where
  "onClose env code sig w =
     (let w1 = unproxyMessages (pe_unproxyMessages env) w;
          w2 = unproxyStreams (pe_parent env) w1;
          w3 = unproxySignals (pe_parent env) (pe_unproxySignals env) w2;
          w4 = proc_removeListener (pe_parent env) EvExit (pe_onParentExit env) w3
      in resolve \<lparr>cf_code = code, cf_signal = sig, cf_body = ModernClose (pe_parent env)\<rparr> w4)"

text \<open>\<^verbatim>\<open>spawn\<close>, lines 166 to 184.\<close>

definition empty_options :: spawn_options where
  "empty_options = \<lparr>opt_parent = Absent, opt_spawn = Absent, opt_stdio = Absent, opt_rest = []\<rparr>"

definition spawn_options_of ::
  "spawn_options \<Rightarrow> bool \<Rightarrow> spawn_options" where
  "spawn_options_of options withIpc =
     options\<lparr>opt_stdio := Present (getStdio (field_value (opt_stdio options)) withIpc),
             opt_parent := Undef, opt_spawn := Undef\<rparr>"

definition spawn ::
  "string \<Rightarrow> string list option \<Rightarrow> spawn_options option \<Rightarrow> world \<Rightarrow> proxy_env \<times> world" where
  "spawn file args0 options0 w =
     (let args = (case args0 of None \<Rightarrow> [] | Some a \<Rightarrow> a);
          options = (case options0 of None \<Rightarrow> empty_options | Some opts \<Rightarrow> opts);
          parent = (case field_value (opt_parent options) of Some p \<Rightarrow> p | None \<Rightarrow> Process);
          spawn_f = (case field_value (opt_spawn options) of Some f \<Rightarrow> f | None \<Rightarrow> CpSpawn);
          spawnOptions = spawn_options_of options (has_send (procs w parent));
          w1 = record_call (SpawnCall spawn_f (AStr file) (map AStr args) spawnOptions) w
      in proxy parent w1)"

section \<open>The legacy entry point\<close>

text \<open>\<^verbatim>\<open>normalizeArguments\<close>, lines 237 to 259.\<close>

record normalized_arguments =
  n_program :: arg
  n_args :: "arg list"
  n_cb :: handler

definition default_cb :: handler where
  "default_cb = \<lparr>h_set_exit = None, h_invocations = 1, h_result = JUndefined\<rparr>"

definition nth_arg :: "arg list \<Rightarrow> nat \<Rightarrow> arg" where
  "nth_arg a i = (if i < length a then a ! i else AUndefined)"

definition normalizeArguments :: "arg list \<Rightarrow> normalized_arguments" where
  "normalizeArguments a =
     (let lastArg = (if a = [] then AUndefined else last a);
          (cb, processArgsEnd) =
             (case lastArg of AFun h \<Rightarrow> (h, length a - 1) | _ \<Rightarrow> (default_cb, length a))
      in case nth_arg a 0 of
           AArr xs \<Rightarrow>
             \<lparr>n_program = (case xs of [] \<Rightarrow> AUndefined | x # _ \<Rightarrow> AStr x),
              n_args = map AStr (tl xs), n_cb = cb\<rparr>
         | a0 \<Rightarrow>
             \<lparr>n_program = a0,
              n_args = (case nth_arg a 1 of
                          AArr ys \<Rightarrow> map AStr ys
                        | _ \<Rightarrow> take (processArgsEnd - 1) (drop 1 a)),
              n_cb = cb\<rparr>)"

text \<open>
  \<^verbatim>\<open>foregroundChild\<close>, lines 276 to 325, up to the registration of the close listener.
  The result is the set of variables that the close listener captures.
\<close>

record legacy_env =
  le_unproxySignals :: "(signal \<times> listener) list"
  le_unproxyMessages :: unproxy_messages
  le_childHangup :: listener
  le_cb :: handler

definition foregroundChild :: "arg list \<Rightarrow> world \<Rightarrow> legacy_env \<times> world" where
  "foregroundChild a w =
     (let simpleSpawn = (if win32 w then CrossSpawn else CpSpawn);
          n = normalizeArguments a;
          spawnOpts = \<lparr>opt_parent = Absent, opt_spawn = Absent,
             opt_stdio = Present (getStdio (Some (StdioMode ''inherit'')) (has_send (procs w Process))),
             opt_rest = []\<rparr>;
          w1 = record_call (SpawnCall simpleSpawn (n_program n) (n_args n) spawnOpts) w;
          w2 = (if has_send (procs w1 Process) then proc_removeAllListeners Process EvMessage w1
                else w1);
          (us, w3) = proxySignals Process w2;
          (um, w4) = proxyMessages Process w3;
          i = next_id w4;
          w5 = alloc w4;
          w6 = proc_on Process EvExit (ChildHangup i) w5;
          w7 = child_on EvClose (LegacyOnClose i) w6
      in (\<lparr>le_unproxySignals = us, le_unproxyMessages = um, le_childHangup = ChildHangup i,
           le_cb = n_cb n\<rparr>, w7))"

text \<open>
  Running a handler on a close function. The process is gone once it has exited, so no
  further invocation follows an exit of the real process.
\<close>

fun invoke_times :: "nat \<Rightarrow> close_fn \<Rightarrow> world \<Rightarrow> world" where
  "invoke_times 0 cf w = w"
| "invoke_times (Suc n) cf w =
     (let w1 = invoke cf w in if exited w1 then w1 else invoke_times n cf w1)"

definition call_cb :: "handler \<Rightarrow> close_fn \<Rightarrow> world \<Rightarrow> jsval \<times> world" where
  "call_cb h cf w =
     (let w1 = record_call (CallCb cf) w;
          w2 = (case h_set_exit h of None \<Rightarrow> w1 | Some v \<Rightarrow> set_exitCode v w1);
          w3 = invoke_times (h_invocations h) cf w2
      in (h_result h, w3))"

text \<open>
  The close listener of \<^verbatim>\<open>foregroundChild\<close>, lines 299 to 322. The value of the call
  \<^verbatim>\<open>cb(...)\<close> is an expression statement: it is dropped.
\<close>

definition legacy_onClose :: "legacy_env \<Rightarrow> int option \<Rightarrow> signal option \<Rightarrow> world \<Rightarrow> world" where
  "legacy_onClose env code sig w =
     (let v = (if truthy_signal sig then js_add (JNum 128) (JStr (the sig)) else code_value code);
          w1 = set_exitCode v w;
          cf = \<lparr>cf_code = code, cf_signal = sig,
                cf_body = LegacyClose (le_unproxySignals env) (le_childHangup env)\<rparr>
      in snd (call_cb (le_cb env) cf w1))"

section \<open>Observations on the trace\<close>

fun is_termination :: "call \<Rightarrow> bool" where
  "is_termination (Exit p c) = True"
| "is_termination (Kill p t s) = True"
| "is_termination _ = False"

fun is_spawn :: "call \<Rightarrow> bool" where
  "is_spawn (SpawnCall f p a opts) = True"
| "is_spawn _ = False"

section \<open>Auxiliary notions for the proofs\<close>

text \<open>
  The entries that the loop of \<^verbatim>\<open>proxySignals\<close> creates from allocation \<open>n\<close> on, the
  signals a listener sends to the child, the stream pairs of \<^verbatim>\<open>proxyStreams\<close>, the calls of
  \<^verbatim>\<open>unproxyMessages\<close>, and the allocations used by \<^verbatim>\<open>proxyMessages\<close> and for the exit
  listener.
\<close>

definition sig_entries :: "nat \<Rightarrow> signal list \<Rightarrow> (signal \<times> listener) list" where
  "sig_entries n sigs = map (\<lambda>(i, s). (s, SigListener i s)) (enumerate n sigs)"

fun listener_kills :: "listener \<Rightarrow> signal list" where
  "listener_kills (SigListener i sig) = [sig]"
| "listener_kills (OnParentExit i) = [''SIGHUP'']"
| "listener_kills (ChildHangup i) = [''SIGHUP'']"
| "listener_kills _ = []"

abbreviation same_host :: "world \<Rightarrow> world \<Rightarrow> bool" where
  "same_host w' w \<equiv>
     exitCode w' = exitCode w \<and> exited w' = exited w \<and> resolved w' = resolved w
     \<and> signal_list w' = signal_list w \<and> win32 w' = win32 w"

abbreviation same_ids :: "world \<Rightarrow> world \<Rightarrow> pref \<Rightarrow> bool" where
  "same_ids w' w q \<equiv>
     pid (procs w' q) = pid (procs w q) \<and> has_send (procs w' q) = has_send (procs w q)"

abbreviation same_streams :: "world \<Rightarrow> world \<Rightarrow> bool" where
  "same_streams w' w \<equiv>
     c_stdout (child w') = c_stdout (child w) \<and> c_stderr (child w') = c_stderr (child w)
     \<and> c_stdin (child w') = c_stdin (child w)"

definition stream_pairs :: "pref \<Rightarrow> child_proc \<Rightarrow> (endpoint \<times> endpoint) list" where
  "stream_pairs p c =
     (if c_stdout c then [(ChildStdout, ParentStdout p)] else [])
     @ (if c_stderr c then [(ChildStderr, ParentStderr p)] else [])
     @ (if c_stdin c then [(ParentStdin p, ChildStdin)] else [])"

fun unproxy_calls :: "unproxy_messages \<Rightarrow> call list" where
  "unproxy_calls Noop = []"
| "unproxy_calls (UnproxyMessages p cl pl) = [ChildRemoveListener EvMessage cl, RemoveListener p EvMessage pl]"

definition msg_id :: "world \<Rightarrow> nat" where
  "msg_id w = next_id w + length (signal_list w)"

definition exit_id :: "pref \<Rightarrow> world \<Rightarrow> nat" where
  "exit_id p w = msg_id w + (if has_send (procs w p) then 1 else 0)"

text \<open>
  A listener created by the source was created before allocation \<open>n\<close> when its number is
  below \<open>n\<close>. In a fresh world for a parent, no registered listener has a number that is
  still to be allocated, and no pipe involves a stream of the child that is about to be
  created.
\<close>

fun created_before :: "nat \<Rightarrow> listener \<Rightarrow> bool" where
  "created_before n (SigListener i s) = (i < n)"
| "created_before n (ChildListener i p) = (i < n)"
| "created_before n (ParentListener i) = (i < n)"
| "created_before n (OnParentExit i) = (i < n)"
| "created_before n (OnClose i) = (i < n)"
| "created_before n (ChildHangup i) = (i < n)"
| "created_before n (LegacyOnClose i) = (i < n)"
| "created_before n (Foreign k) = True"

fun child_endpoint :: "endpoint \<Rightarrow> bool" where
  "child_endpoint ChildStdout = True"
| "child_endpoint ChildStderr = True"
| "child_endpoint ChildStdin = True"
| "child_endpoint _ = False"

definition fresh_world :: "pref \<Rightarrow> world \<Rightarrow> bool" where
  "fresh_world p w =
     (list_all (\<lambda>el. created_before (next_id w) (snd el)) (listeners (procs w p))
      \<and> list_all (\<lambda>el. created_before (next_id w) (snd el)) (c_listeners (child w))
      \<and> list_all (\<lambda>pr. \<not> child_endpoint (fst pr) \<and> \<not> child_endpoint (snd pr)) (pipes w))"

text \<open>
  Worlds to run the code in: every process object has pid 4242, the given IPC capability
  and the given listeners; the child has stream objects or not; two signals are relayed.
\<close>

definition start_world :: "bool \<Rightarrow> bool \<Rightarrow> (event \<times> listener) list \<Rightarrow> world" where
  "start_world ipc piped ls =
     \<lparr>procs = (\<lambda>p. \<lparr>pid = 4242, has_send = ipc, listeners = ls\<rparr>),
      child = \<lparr>c_stdout = piped, c_stderr = piped, c_stdin = piped, c_listeners = []\<rparr>,
      pipes = [], signal_list = [''SIGINT'', ''SIGTERM''], win32 = False,
      exitCode = JUndefined, exited = False, resolved = None, next_id = 0, trace = []\<rparr>"

definition parent_of :: "spawn_options option \<Rightarrow> pref" where
  "parent_of options0 =
     (case options0 of None \<Rightarrow> Process
      | Some opts \<Rightarrow> (case field_value (opt_parent opts) of None \<Rightarrow> Process | Some p \<Rightarrow> p))"

fun is_timer :: "call \<Rightarrow> bool" where
  "is_timer (SetTimeout ms) = True"
| "is_timer _ = False"

section \<open>How each operation changes the world\<close>

lemmas prim_defs = record_call_def alloc_def upd_proc_def proc_on_def proc_removeListener_def
  proc_removeAllListeners_def proc_send_def proc_kill_def child_on_def child_removeListener_def
  child_kill_def child_send_def pipe_def unpipe_def setTimeout_def set_exitCode_def

lemma run_listener_fields:
  "trace (run_listener l w) = trace w @ map ChildKill (listener_kills l)
   \<and> procs (run_listener l w) = procs w
   \<and> child (run_listener l w) = child w
   \<and> pipes (run_listener l w) = pipes w
   \<and> next_id (run_listener l w) = next_id w
   \<and> same_host (run_listener l w) w"
  by (cases l) (simp_all add: prim_defs)

lemma fold_run_listener_fields:
  "trace (fold run_listener ls w) = trace w @ map ChildKill (concat (map listener_kills ls))
   \<and> procs (fold run_listener ls w) = procs w
   \<and> child (fold run_listener ls w) = child w
   \<and> pipes (fold run_listener ls w) = pipes w
   \<and> next_id (fold run_listener ls w) = next_id w
   \<and> same_host (fold run_listener ls w) w"
proof (induction ls arbitrary: w)
  case Nil
  show ?case by simp
next
  case (Cons l ls)
  show ?case by (simp add: Cons.IH run_listener_fields)
qed

lemma proc_exit_fields:
  "trace (proc_exit p c w)
     = trace w @ Exit p c #
       (if p = Process
        then map ChildKill (concat (map listener_kills (listeners_for EvExit (listeners (procs w Process)))))
        else [])
   \<and> procs (proc_exit p c w) = procs w
   \<and> child (proc_exit p c w) = child w
   \<and> pipes (proc_exit p c w) = pipes w
   \<and> next_id (proc_exit p c w) = next_id w
   \<and> exitCode (proc_exit p c w) = exitCode w
   \<and> exited (proc_exit p c w) = (p = Process \<or> exited w)
   \<and> resolved (proc_exit p c w) = resolved w
   \<and> signal_list (proc_exit p c w) = signal_list w
   \<and> win32 (proc_exit p c w) = win32 w"
  by (simp add: proc_exit_def emit_def Let_def fold_run_listener_fields record_call_def)

lemma proxySignals_loop_fields:
  "fst (proxySignals_loop p sigs m w) = fold (\<lambda>(s, l). map_set s l) (sig_entries (next_id w) sigs) m
   \<and> trace (snd (proxySignals_loop p sigs m w))
       = trace w @ map (\<lambda>(s, l). On p (EvSignal s) l) (sig_entries (next_id w) sigs)
   \<and> listeners (procs (snd (proxySignals_loop p sigs m w)) q)
       = (if q = p then listeners (procs w p)
                        @ map (\<lambda>(s, l). (EvSignal s, l)) (sig_entries (next_id w) sigs)
          else listeners (procs w q))
   \<and> same_ids (snd (proxySignals_loop p sigs m w)) w q
   \<and> child (snd (proxySignals_loop p sigs m w)) = child w
   \<and> pipes (snd (proxySignals_loop p sigs m w)) = pipes w
   \<and> next_id (snd (proxySignals_loop p sigs m w)) = next_id w + length sigs
   \<and> same_host (snd (proxySignals_loop p sigs m w)) w"
proof (induction sigs arbitrary: m w)
  case Nil
  show ?case by (simp add: sig_entries_def)
next
  case (Cons s sigs)
  show ?case
    by (simp add: Cons.IH sig_entries_def Let_def prim_defs)
qed

lemma unproxySignals_fields:
  "trace (unproxySignals p ls w) = trace w @ map (\<lambda>(s, l). RemoveListener p (EvSignal s) l) ls
   \<and> listeners (procs (unproxySignals p ls w) q)
       = (if q = p then fold (\<lambda>(s, l). remove_last (EvSignal s, l)) ls (listeners (procs w p))
          else listeners (procs w q))
   \<and> same_ids (unproxySignals p ls w) w q
   \<and> child (unproxySignals p ls w) = child w
   \<and> pipes (unproxySignals p ls w) = pipes w
   \<and> next_id (unproxySignals p ls w) = next_id w
   \<and> same_host (unproxySignals p ls w) w"
proof (induction ls arbitrary: w)
  case Nil
  show ?case by simp
next
  case (Cons a ls)
  obtain s l where a: "a = (s, l)" by (cases a)
  show ?case
    by (simp add: a Cons.IH prim_defs)
qed

lemma proxyStreams_fields:
  "trace (proxyStreams p w) = trace w @ map (\<lambda>(a, b). Pipe a b) (stream_pairs p (child w))
   \<and> pipes (proxyStreams p w) = pipes w @ stream_pairs p (child w)
   \<and> procs (proxyStreams p w) = procs w
   \<and> child (proxyStreams p w) = child w
   \<and> next_id (proxyStreams p w) = next_id w
   \<and> same_host (proxyStreams p w) w"
  by (simp add: proxyStreams_def stream_pairs_def Let_def prim_defs)

lemma unproxyStreams_fields:
  "trace (unproxyStreams p w) = trace w @ map (\<lambda>(a, b). Unpipe a b) (stream_pairs p (child w))
   \<and> pipes (unproxyStreams p w) = fold remove1 (stream_pairs p (child w)) (pipes w)
   \<and> procs (unproxyStreams p w) = procs w
   \<and> child (unproxyStreams p w) = child w
   \<and> next_id (unproxyStreams p w) = next_id w
   \<and> same_host (unproxyStreams p w) w"
  by (simp add: unproxyStreams_def stream_pairs_def Let_def prim_defs)

lemma proxyMessages_fields:
  "fst (proxyMessages p w)
     = (if has_send (procs w p)
        then UnproxyMessages p (ChildListener (next_id w) p) (ParentListener (next_id w))
        else Noop)
   \<and> trace (snd (proxyMessages p w))
     = trace w @ (if has_send (procs w p)
                  then [ChildOn EvMessage (ChildListener (next_id w) p),
                        On p EvMessage (ParentListener (next_id w))]
                  else [])
   \<and> listeners (procs (snd (proxyMessages p w)) q)
     = listeners (procs w q)
       @ (if q = p \<and> has_send (procs w p) then [(EvMessage, ParentListener (next_id w))] else [])
   \<and> same_ids (snd (proxyMessages p w)) w q
   \<and> c_listeners (child (snd (proxyMessages p w)))
     = c_listeners (child w)
       @ (if has_send (procs w p) then [(EvMessage, ChildListener (next_id w) p)] else [])
   \<and> same_streams (snd (proxyMessages p w)) w
   \<and> pipes (snd (proxyMessages p w)) = pipes w
   \<and> next_id (snd (proxyMessages p w)) = (if has_send (procs w p) then Suc (next_id w) else next_id w)
   \<and> same_host (snd (proxyMessages p w)) w"
  by (simp add: proxyMessages_def Let_def prim_defs)

lemma unproxyMessages_fields:
  "trace (unproxyMessages um w) = trace w @ unproxy_calls um
   \<and> listeners (procs (unproxyMessages um w) q)
     = (case um of Noop \<Rightarrow> listeners (procs w q)
        | UnproxyMessages p cl pl \<Rightarrow>
            if q = p then remove_last (EvMessage, pl) (listeners (procs w q))
            else listeners (procs w q))
   \<and> same_ids (unproxyMessages um w) w q
   \<and> c_listeners (child (unproxyMessages um w))
     = (case um of Noop \<Rightarrow> c_listeners (child w)
        | UnproxyMessages p cl pl \<Rightarrow> remove_last (EvMessage, cl) (c_listeners (child w)))
   \<and> same_streams (unproxyMessages um w) w
   \<and> pipes (unproxyMessages um w) = pipes w
   \<and> next_id (unproxyMessages um w) = next_id w
   \<and> same_host (unproxyMessages um w) w"
  by (cases um) (simp_all add: prim_defs)

lemma proxySignals_fields:
  "fst (proxySignals p w) = fold (\<lambda>(s, l). map_set s l) (sig_entries (next_id w) (signal_list w)) []
   \<and> trace (snd (proxySignals p w))
       = trace w @ map (\<lambda>(s, l). On p (EvSignal s) l) (sig_entries (next_id w) (signal_list w))
   \<and> listeners (procs (snd (proxySignals p w)) q)
       = (if q = p then listeners (procs w p)
                        @ map (\<lambda>(s, l). (EvSignal s, l)) (sig_entries (next_id w) (signal_list w))
          else listeners (procs w q))
   \<and> same_ids (snd (proxySignals p w)) w q
   \<and> child (snd (proxySignals p w)) = child w
   \<and> pipes (snd (proxySignals p w)) = pipes w
   \<and> next_id (snd (proxySignals p w)) = msg_id w
   \<and> same_host (snd (proxySignals p w)) w"
  by (simp add: proxySignals_def proxySignals_loop_fields msg_id_def)

lemma proxy_fields:
  "fst (proxy p w)
     = \<lparr>pe_parent = p,
        pe_unproxySignals = fold (\<lambda>(s, l). map_set s l) (sig_entries (next_id w) (signal_list w)) [],
        pe_unproxyMessages =
          (if has_send (procs w p)
           then UnproxyMessages p (ChildListener (msg_id w) p) (ParentListener (msg_id w))
           else Noop),
        pe_onParentExit = OnParentExit (exit_id p w),
        pe_onClose = OnClose (exit_id p w)\<rparr>
   \<and> trace (snd (proxy p w))
     = trace w
       @ map (\<lambda>(s, l). On p (EvSignal s) l) (sig_entries (next_id w) (signal_list w))
       @ map (\<lambda>(a, b). Pipe a b) (stream_pairs p (child w))
       @ (if has_send (procs w p)
          then [ChildOn EvMessage (ChildListener (msg_id w) p),
                On p EvMessage (ParentListener (msg_id w))]
          else [])
       @ [On p EvExit (OnParentExit (exit_id p w)), ChildOn EvClose (OnClose (exit_id p w))]
   \<and> listeners (procs (snd (proxy p w)) q)
     = (if q = p
        then listeners (procs w p)
             @ map (\<lambda>(s, l). (EvSignal s, l)) (sig_entries (next_id w) (signal_list w))
             @ (if has_send (procs w p) then [(EvMessage, ParentListener (msg_id w))] else [])
             @ [(EvExit, OnParentExit (exit_id p w))]
        else listeners (procs w q))
   \<and> same_ids (snd (proxy p w)) w q
   \<and> c_listeners (child (snd (proxy p w)))
     = c_listeners (child w)
       @ (if has_send (procs w p) then [(EvMessage, ChildListener (msg_id w) p)] else [])
       @ [(EvClose, OnClose (exit_id p w))]
   \<and> same_streams (snd (proxy p w)) w
   \<and> pipes (snd (proxy p w)) = pipes w @ stream_pairs p (child w)
   \<and> next_id (snd (proxy p w)) = Suc (exit_id p w)
   \<and> same_host (snd (proxy p w)) w"
  by (simp add: proxy_def Let_def split_def proxySignals_fields proxyStreams_fields
      proxyMessages_fields exit_id_def prim_defs)

lemma filter_term_kills: "filter is_termination (map ChildKill ks) = []"
  by (induction ks) simp_all

lemma filter_spawn_kills: "filter is_spawn (map ChildKill ks) = []"
  by (induction ks) simp_all

lemma remove_last_mid: "x \<notin> set R \<Longrightarrow> remove_last x (L @ x # R) = L @ R"
  by (simp add: remove_last_def remove1_append)

lemma remove_last_absent: "x \<notin> set xs \<Longrightarrow> remove_last x xs = xs"
  by (simp add: remove_last_def remove1_idem)

lemma map_set_fresh: "k \<notin> fst ` set m \<Longrightarrow> map_set k v m = m @ [(k, v)]"
  by (induction m) auto

lemma fold_map_set_fresh:
  "distinct (map fst es) \<Longrightarrow> fst ` set es \<inter> fst ` set m = {} \<Longrightarrow>
   fold (\<lambda>(s, l). map_set s l) es m = m @ es"
proof (induction es arbitrary: m)
  case Nil
  show ?case by simp
next
  case (Cons e es)
  obtain k v where e: "e = (k, v)" by (cases e)
  have k: "k \<notin> fst ` set m" using Cons.prems(2) by (auto simp: e)
  have d: "distinct (map fst es)" using Cons.prems(1) by simp
  have "fst ` set es \<inter> fst ` set (m @ [(k, v)]) = {}"
    using Cons.prems by (auto simp: e)
  from Cons.IH [OF d this] show ?case
    by (simp add: e map_set_fresh [OF k])
qed

lemma map_fst_sig_entries: "map fst (sig_entries n sigs) = sigs"
  by (induction sigs arbitrary: n) (simp_all add: sig_entries_def)

lemma sig_map_distinct:
  "distinct sigs \<Longrightarrow> fold (\<lambda>(s, l). map_set s l) (sig_entries n sigs) [] = sig_entries n sigs"
  using fold_map_set_fresh [of "sig_entries n sigs" "[]"] by (simp add: map_fst_sig_entries)

lemma fold_remove_last_restores:
  "distinct (map fst es) \<Longrightarrow> \<forall>e\<in>set es. (EvSignal (fst e), snd e) \<notin> set R \<Longrightarrow>
   fold (\<lambda>(s, l). remove_last (EvSignal s, l)) es (L @ map (\<lambda>(s, l). (EvSignal s, l)) es @ R) = L @ R"
proof (induction es arbitrary: L)
  case Nil
  show ?case by simp
next
  case (Cons e es)
  obtain k v where e: "e = (k, v)" by (cases e)
  have "(EvSignal k, v) \<notin> set (map (\<lambda>(s, l). (EvSignal s, l)) es @ R)"
    using Cons.prems by (force simp: e)
  then have "remove_last (EvSignal k, v) (L @ (EvSignal k, v) # map (\<lambda>(s, l). (EvSignal s, l)) es @ R)
      = L @ map (\<lambda>(s, l). (EvSignal s, l)) es @ R"
    by (rule remove_last_mid)
  moreover have "fold (\<lambda>(s, l). remove_last (EvSignal s, l)) es (L @ map (\<lambda>(s, l). (EvSignal s, l)) es @ R) = L @ R"
    using Cons.prems by (intro Cons.IH) simp_all
  ultimately show ?case by (simp add: e)
qed

lemma fold_remove_last_absent:
  "\<forall>e\<in>set es. (EvSignal (fst e), snd e) \<notin> set xs \<Longrightarrow>
   fold (\<lambda>(s, l). remove_last (EvSignal s, l)) es xs = xs"
proof (induction es)
  case Nil
  show ?case by simp
next
  case (Cons e es)
  obtain k v where e: "e = (k, v)" by (cases e)
  show ?case using Cons by (simp add: e remove_last_absent)
qed

lemma fold_remove1_appended:
  "\<forall>x\<in>set xs. x \<notin> set P \<Longrightarrow> distinct xs \<Longrightarrow> fold remove1 xs (P @ xs) = P"
proof (induction xs arbitrary: P)
  case Nil
  show ?case by simp
next
  case (Cons x xs)
  have "remove1 x (P @ x # xs) = P @ xs" using Cons.prems by (simp add: remove1_append)
  then show ?case using Cons by simp
qed

lemma fold_remove1_absent: "\<forall>x\<in>set xs. x \<notin> set P \<Longrightarrow> fold remove1 xs P = P"
  by (induction xs) (simp_all add: remove1_idem)

lemma distinct_stream_pairs: "distinct (stream_pairs p c)"
  by (simp add: stream_pairs_def)
lemma spawn_eq:
  "spawn file args0 options0 w =
     proxy (parent_of options0)
       (record_call
          (SpawnCall (case field_value (opt_spawn (case options0 of None \<Rightarrow> empty_options | Some opts \<Rightarrow> opts)) of
                        Some f \<Rightarrow> f | None \<Rightarrow> CpSpawn)
             (AStr file) (map AStr (case args0 of None \<Rightarrow> [] | Some a \<Rightarrow> a))
             (spawn_options_of (case options0 of None \<Rightarrow> empty_options | Some opts \<Rightarrow> opts)
                (has_send (procs w (parent_of options0))))) w)"
  by (simp add: spawn_def parent_of_def Let_def empty_options_def split: option.splits)

lemma record_call_fields:
  "trace (record_call c w) = trace w @ [c]
   \<and> procs (record_call c w) = procs w
   \<and> child (record_call c w) = child w
   \<and> pipes (record_call c w) = pipes w
   \<and> next_id (record_call c w) = next_id w
   \<and> same_host (record_call c w) w"
  by (simp add: record_call_def)

lemma onClose_fields:
  "trace (onClose env code sig w)
     = trace w @ unproxy_calls (pe_unproxyMessages env)
       @ map (\<lambda>(a, b). Unpipe a b) (stream_pairs (pe_parent env) (child w))
       @ map (\<lambda>(s, l). RemoveListener (pe_parent env) (EvSignal s) l) (pe_unproxySignals env)
       @ [RemoveListener (pe_parent env) EvExit (pe_onParentExit env),
          Resolve \<lparr>cf_code = code, cf_signal = sig, cf_body = ModernClose (pe_parent env)\<rparr>]
   \<and> listeners (procs (onClose env code sig w) (pe_parent env))
     = remove_last (EvExit, pe_onParentExit env)
         (fold (\<lambda>(s, l). remove_last (EvSignal s, l)) (pe_unproxySignals env)
            (listeners (procs (unproxyMessages (pe_unproxyMessages env) w) (pe_parent env))))
   \<and> same_ids (onClose env code sig w) w q
   \<and> c_listeners (child (onClose env code sig w))
     = c_listeners (child (unproxyMessages (pe_unproxyMessages env) w))
   \<and> same_streams (onClose env code sig w) w
   \<and> pipes (onClose env code sig w) = fold remove1 (stream_pairs (pe_parent env) (child w)) (pipes w)
   \<and> next_id (onClose env code sig w) = next_id w
   \<and> exitCode (onClose env code sig w) = exitCode w
   \<and> exited (onClose env code sig w) = exited w
   \<and> signal_list (onClose env code sig w) = signal_list w
   \<and> win32 (onClose env code sig w) = win32 w"
  by (cases "pe_unproxyMessages env")
    (simp_all add: onClose_def resolve_def Let_def prim_defs unproxySignals_fields
      unproxyStreams_fields stream_pairs_def)

lemma foregroundChild_fields:
  "fst (foregroundChild a w)
     = \<lparr>le_unproxySignals = fold (\<lambda>(s, l). map_set s l) (sig_entries (next_id w) (signal_list w)) [],
        le_unproxyMessages =
          (if has_send (procs w Process)
           then UnproxyMessages Process (ChildListener (msg_id w) Process) (ParentListener (msg_id w))
           else Noop),
        le_childHangup = ChildHangup (exit_id Process w),
        le_cb = n_cb (normalizeArguments a)\<rparr>
   \<and> trace (snd (foregroundChild a w))
     = trace w
       @ [SpawnCall (if win32 w then CrossSpawn else CpSpawn)
            (n_program (normalizeArguments a)) (n_args (normalizeArguments a))
            \<lparr>opt_parent = Absent, opt_spawn = Absent,
             opt_stdio = Present (getStdio (Some (StdioMode ''inherit'')) (has_send (procs w Process))),
             opt_rest = []\<rparr>]
       @ (if has_send (procs w Process) then [RemoveAllListeners Process EvMessage] else [])
       @ map (\<lambda>(s, l). On Process (EvSignal s) l) (sig_entries (next_id w) (signal_list w))
       @ (if has_send (procs w Process)
          then [ChildOn EvMessage (ChildListener (msg_id w) Process),
                On Process EvMessage (ParentListener (msg_id w))]
          else [])
       @ [On Process EvExit (ChildHangup (exit_id Process w)),
          ChildOn EvClose (LegacyOnClose (exit_id Process w))]
   \<and> listeners (procs (snd (foregroundChild a w)) q)
     = (if q = Process
        then (if has_send (procs w Process)
              then filter (\<lambda>el. fst el \<noteq> EvMessage) (listeners (procs w Process))
              else listeners (procs w Process))
             @ map (\<lambda>(s, l). (EvSignal s, l)) (sig_entries (next_id w) (signal_list w))
             @ (if has_send (procs w Process) then [(EvMessage, ParentListener (msg_id w))] else [])
             @ [(EvExit, ChildHangup (exit_id Process w))]
        else listeners (procs w q))
   \<and> same_ids (snd (foregroundChild a w)) w q
   \<and> c_listeners (child (snd (foregroundChild a w)))
     = c_listeners (child w)
       @ (if has_send (procs w Process) then [(EvMessage, ChildListener (msg_id w) Process)] else [])
       @ [(EvClose, LegacyOnClose (exit_id Process w))]
   \<and> same_streams (snd (foregroundChild a w)) w
   \<and> pipes (snd (foregroundChild a w)) = pipes w
   \<and> next_id (snd (foregroundChild a w)) = Suc (exit_id Process w)
   \<and> same_host (snd (foregroundChild a w)) w"
  by (simp add: foregroundChild_def Let_def split_def proxySignals_fields
      proxyMessages_fields exit_id_def msg_id_def prim_defs)

lemma invoke_legacy_fields:
  "trace (invoke \<lparr>cf_code = code, cf_signal = sig, cf_body = LegacyClose ls h\<rparr> w)
     = trace w @ map (\<lambda>(s, l). RemoveListener Process (EvSignal s) l) ls
       @ [RemoveListener Process EvExit h]
       @ (if truthy_signal sig
          then [SetTimeout 200, Kill Process (pid (procs w Process)) (the sig)]
          else Exit Process (exitCode w) #
               map ChildKill (concat (map listener_kills (listeners_for EvExit
                 (remove_last (EvExit, h)
                    (fold (\<lambda>(s, l). remove_last (EvSignal s, l)) ls (listeners (procs w Process))))))))
   \<and> listeners (procs (invoke \<lparr>cf_code = code, cf_signal = sig, cf_body = LegacyClose ls h\<rparr> w) q)
     = (if q = Process
        then remove_last (EvExit, h)
               (fold (\<lambda>(s, l). remove_last (EvSignal s, l)) ls (listeners (procs w Process)))
        else listeners (procs w q))
   \<and> same_ids (invoke \<lparr>cf_code = code, cf_signal = sig, cf_body = LegacyClose ls h\<rparr> w) w q
   \<and> child (invoke \<lparr>cf_code = code, cf_signal = sig, cf_body = LegacyClose ls h\<rparr> w) = child w
   \<and> pipes (invoke \<lparr>cf_code = code, cf_signal = sig, cf_body = LegacyClose ls h\<rparr> w) = pipes w
   \<and> next_id (invoke \<lparr>cf_code = code, cf_signal = sig, cf_body = LegacyClose ls h\<rparr> w) = next_id w
   \<and> exitCode (invoke \<lparr>cf_code = code, cf_signal = sig, cf_body = LegacyClose ls h\<rparr> w) = exitCode w
   \<and> exited (invoke \<lparr>cf_code = code, cf_signal = sig, cf_body = LegacyClose ls h\<rparr> w)
       = (\<not> truthy_signal sig \<or> exited w)
   \<and> resolved (invoke \<lparr>cf_code = code, cf_signal = sig, cf_body = LegacyClose ls h\<rparr> w) = resolved w"
  by (simp add: invoke_def Let_def unproxySignals_fields proc_exit_fields prim_defs)

lemma invoke_modern_fields:
  "trace (invoke \<lparr>cf_code = code, cf_signal = sig, cf_body = ModernClose p\<rparr> w)
     = trace w
       @ (case sig of
            Some s \<Rightarrow> (if p = Process then [SetTimeout 200] else []) @ [Kill p (pid (procs w p)) s]
          | None \<Rightarrow> Exit p (code_value code) #
              (if p = Process
               then map ChildKill (concat (map listener_kills
                      (listeners_for EvExit (listeners (procs w Process)))))
               else []))
   \<and> procs (invoke \<lparr>cf_code = code, cf_signal = sig, cf_body = ModernClose p\<rparr> w) = procs w
   \<and> child (invoke \<lparr>cf_code = code, cf_signal = sig, cf_body = ModernClose p\<rparr> w) = child w
   \<and> pipes (invoke \<lparr>cf_code = code, cf_signal = sig, cf_body = ModernClose p\<rparr> w) = pipes w
   \<and> next_id (invoke \<lparr>cf_code = code, cf_signal = sig, cf_body = ModernClose p\<rparr> w) = next_id w
   \<and> exitCode (invoke \<lparr>cf_code = code, cf_signal = sig, cf_body = ModernClose p\<rparr> w) = exitCode w
   \<and> exited (invoke \<lparr>cf_code = code, cf_signal = sig, cf_body = ModernClose p\<rparr> w)
       = ((sig = None \<and> p = Process) \<or> exited w)
   \<and> resolved (invoke \<lparr>cf_code = code, cf_signal = sig, cf_body = ModernClose p\<rparr> w) = resolved w"
  by (cases sig) (simp_all add: invoke_def Let_def proc_exit_fields prim_defs)

lemma num_128: "num_to_string 128 = ''128''"
  by code_simp

lemma legacy_onClose_eq:
  "legacy_onClose env code sig w =
     snd (call_cb (le_cb env)
            \<lparr>cf_code = code, cf_signal = sig,
             cf_body = LegacyClose (le_unproxySignals env) (le_childHangup env)\<rparr>
            (set_exitCode (if truthy_signal sig then JStr (''128'' @ the sig) else code_value code) w))"
  by (simp add: legacy_onClose_def Let_def num_128)

lemmas eval_defs = start_world_def sig_entries_def normalizeArguments_def nth_arg_def
  default_cb_def msg_id_def exit_id_def stream_pairs_def getStdio_def

lemma filter_spawn_attach:
  "filter is_spawn (map (\<lambda>(s, l). On p (EvSignal s) l) es) = []"
  "filter is_spawn (map (\<lambda>(a, b). Pipe a b) ps) = []"
  "filter is_timer (map (\<lambda>(s, l). On p (EvSignal s) l) es) = []"
  "filter is_timer (map (\<lambda>(a, b). Pipe a b) ps) = []"
  by (induction es; induction ps; simp add: split_def)+

lemma filter_term_detach:
  "filter is_termination (map (\<lambda>(s, l). RemoveListener p (EvSignal s) l) es) = []"
  "filter is_termination (map (\<lambda>(a, b). Unpipe a b) ps) = []"
  "filter is_termination (unproxy_calls um) = []"
  by (induction es; induction ps; cases um; simp add: split_def)+

lemma listeners_for_simps:
  "listeners_for ev (xs @ ys) = listeners_for ev xs @ listeners_for ev ys"
  "listeners_for ev [] = []"
  "listeners_for ev ((e, l) # xs) = (if e = ev then l # listeners_for ev xs else listeners_for ev xs)"
  by (simp_all add: listeners_for_def)

lemma listeners_for_message_signals:
  "listeners_for EvMessage (map (\<lambda>(s, l). (EvSignal s, l)) es) = []"
  by (induction es) (simp_all add: listeners_for_def split_def)

lemma listeners_for_message_removed:
  "listeners_for EvMessage (filter (\<lambda>el. fst el \<noteq> EvMessage) ls) = []"
  by (induction ls) (simp_all add: listeners_for_def)

lemma listeners_for_exit_signals:
  "listeners_for EvExit (map (\<lambda>(s, l). (EvSignal s, l)) es) = []"
  by (induction es) (simp_all add: listeners_for_def split_def)

lemma listeners_for_exit_removed:
  "listeners_for EvExit (filter (\<lambda>el. fst el \<noteq> EvMessage) ls) = listeners_for EvExit ls"
  by (induction ls) (auto simp add: listeners_for_def)

lemma filter_term_onClose:
  "filter is_termination (trace (onClose env code sig w)) = filter is_termination (trace w)"
  by (simp add: onClose_fields filter_term_detach)

lemma onClose_listeners:
  "listeners (procs (onClose env code sig w) q)
     = (if q = pe_parent env
        then remove_last (EvExit, pe_onParentExit env)
               (fold (\<lambda>(s, l). remove_last (EvSignal s, l)) (pe_unproxySignals env)
                  (listeners (procs (unproxyMessages (pe_unproxyMessages env) w) q)))
        else listeners (procs (unproxyMessages (pe_unproxyMessages env) w) q))"
  by (cases "pe_unproxyMessages env")
    (simp_all add: onClose_def resolve_def Let_def prim_defs unproxySignals_fields
      unproxyStreams_fields stream_pairs_def)

lemma teardown_list:
  assumes "distinct (map fst es)"
  shows "remove_last (EvExit, x)
           (fold (\<lambda>(s, l). remove_last (EvSignal s, l)) es
              (L @ map (\<lambda>(s, l). (EvSignal s, l)) es @ [(EvExit, x)])) = L"
    and "remove_last (EvExit, x)
           (fold (\<lambda>(s, l). remove_last (EvSignal s, l)) es
              (remove_last (EvMessage, pl)
                 (L @ map (\<lambda>(s, l). (EvSignal s, l)) es @ [(EvMessage, pl), (EvExit, x)]))) = L"
proof -
  have r: "fold (\<lambda>(s, l). remove_last (EvSignal s, l)) es
              (L @ map (\<lambda>(s, l). (EvSignal s, l)) es @ [(EvExit, x)]) = L @ [(EvExit, x)]"
    using assms by (intro fold_remove_last_restores) simp_all
  have x: "remove_last (EvExit, x) (L @ [(EvExit, x)]) = L"
    using remove_last_mid [of "(EvExit, x)" "[]" L] by simp
  show "remove_last (EvExit, x)
           (fold (\<lambda>(s, l). remove_last (EvSignal s, l)) es
              (L @ map (\<lambda>(s, l). (EvSignal s, l)) es @ [(EvExit, x)])) = L"
    by (simp add: r x)
  have m: "remove_last (EvMessage, pl)
             ((L @ map (\<lambda>(s, l). (EvSignal s, l)) es) @ (EvMessage, pl) # [(EvExit, x)])
           = (L @ map (\<lambda>(s, l). (EvSignal s, l)) es) @ [(EvExit, x)]"
    by (rule remove_last_mid) simp
  show "remove_last (EvExit, x)
           (fold (\<lambda>(s, l). remove_last (EvSignal s, l)) es
              (remove_last (EvMessage, pl)
                 (L @ map (\<lambda>(s, l). (EvSignal s, l)) es @ [(EvMessage, pl), (EvExit, x)]))) = L"
    using m by (simp add: r x)
qed

lemma proxy_close_listeners:
  assumes "distinct (signal_list w)"
  shows "listeners (procs (onClose (fst (proxy p w)) code sig (snd (proxy p w))) q)
           = listeners (procs w q)"
proof -
  have d: "distinct (map fst (sig_entries (next_id w) (signal_list w)))"
    using assms by (simp add: map_fst_sig_entries)
  show ?thesis
    by (simp add: onClose_listeners proxy_fields unproxyMessages_fields
        sig_map_distinct [OF assms] teardown_list [OF d])
qed

lemma sig_entries_later:
  "e \<in> set (sig_entries n sigs) \<Longrightarrow> \<not> created_before n (snd e)"
  by (auto simp add: sig_entries_def in_set_enumerate_eq)

lemma fresh_signals_absent:
  assumes "list_all (\<lambda>el. created_before n (snd el)) L"
  shows "\<forall>e\<in>set (sig_entries n sigs). (EvSignal (fst e), snd e) \<notin> set L"
proof
  fix e assume e: "e \<in> set (sig_entries n sigs)"
  show "(EvSignal (fst e), snd e) \<notin> set L"
  proof
    assume "(EvSignal (fst e), snd e) \<in> set L"
    with assms have "created_before n (snd e)" by (auto simp add: list_all_iff)
    with sig_entries_later [OF e] show False by simp
  qed
qed

lemma fresh_listener_absent:
  assumes "list_all (\<lambda>el. created_before n (snd el)) L" and "\<not> created_before n l"
  shows "(ev, l) \<notin> set L"
  using assms by (auto simp add: list_all_iff)

lemma fresh_pairs_absent:
  assumes "list_all (\<lambda>pr. \<not> child_endpoint (fst pr) \<and> \<not> child_endpoint (snd pr)) P"
  shows "\<forall>x\<in>set (stream_pairs p c). x \<notin> set P"
  using assms by (auto simp add: list_all_iff stream_pairs_def split: if_splits)

lemma proxy_close_child:
  "c_listeners (child (onClose (fst (proxy p w)) code sig (snd (proxy p w))))
     = c_listeners (child w) @ [(EvClose, OnClose (exit_id p w))]"
proof -
  have "remove_last (EvMessage, ChildListener (msg_id w) p)
          (c_listeners (child w) @ (EvMessage, ChildListener (msg_id w) p) # [(EvClose, OnClose (exit_id p w))])
        = c_listeners (child w) @ [(EvClose, OnClose (exit_id p w))]"
    by (rule remove_last_mid) simp
  then show ?thesis
    by (simp add: onClose_fields proxy_fields unproxyMessages_fields)
qed

lemma proxy_close_pipes:
  assumes "fresh_world p w"
  shows "pipes (onClose (fst (proxy p w)) code sig (snd (proxy p w))) = pipes w"
proof -
  have "\<forall>x\<in>set (stream_pairs p (child w)). x \<notin> set (pipes w)"
    using assms by (intro fresh_pairs_absent) (simp add: fresh_world_def)
  then have "fold remove1 (stream_pairs p (child w)) (pipes w @ stream_pairs p (child w)) = pipes w"
    by (rule fold_remove1_appended) (rule distinct_stream_pairs)
  moreover have "stream_pairs p (child (snd (proxy p w))) = stream_pairs p (child w)"
    by (simp add: stream_pairs_def proxy_fields)
  ultimately show ?thesis
    by (simp add: onClose_fields proxy_fields)
qed

lemma proxy_second_detach:
  assumes d: "distinct (signal_list w)" and f: "fresh_world p w"
  shows "listeners (procs (unproxySignals p (pe_unproxySignals (fst (proxy p w)))
                      (onClose (fst (proxy p w)) code sig (snd (proxy p w)))) q)
           = listeners (procs w q)"
    and "listeners (procs (unproxyMessages (pe_unproxyMessages (fst (proxy p w)))
                      (onClose (fst (proxy p w)) code sig (snd (proxy p w)))) q)
           = listeners (procs w q)"
    and "c_listeners (child (unproxyMessages (pe_unproxyMessages (fst (proxy p w)))
                      (onClose (fst (proxy p w)) code sig (snd (proxy p w)))))
           = c_listeners (child w) @ [(EvClose, OnClose (exit_id p w))]"
    and "pipes (unproxyStreams p (onClose (fst (proxy p w)) code sig (snd (proxy p w)))) = pipes w"
proof -
  let ?w2 = "onClose (fst (proxy p w)) code sig (snd (proxy p w))"
  have L: "list_all (\<lambda>el. created_before (next_id w) (snd el)) (listeners (procs w p))"
    and C: "list_all (\<lambda>el. created_before (next_id w) (snd el)) (c_listeners (child w))"
    using f by (simp_all add: fresh_world_def)
  have w2: "listeners (procs ?w2 r) = listeners (procs w r)" for r
    by (rule proxy_close_listeners [OF d])
  have c2: "c_listeners (child ?w2) = c_listeners (child w) @ [(EvClose, OnClose (exit_id p w))]"
    by (rule proxy_close_child)
  have p2: "pipes ?w2 = pipes w"
    by (rule proxy_close_pipes [OF f])
  have us: "pe_unproxySignals (fst (proxy p w)) = sig_entries (next_id w) (signal_list w)"
    by (simp add: proxy_fields sig_map_distinct [OF d])
  have um: "pe_unproxyMessages (fst (proxy p w))
      = (if has_send (procs w p)
         then UnproxyMessages p (ChildListener (msg_id w) p) (ParentListener (msg_id w))
         else Noop)"
    by (simp add: proxy_fields)
  have s: "\<forall>e\<in>set (sig_entries (next_id w) (signal_list w)).
             (EvSignal (fst e), snd e) \<notin> set (listeners (procs w p))"
    by (rule fresh_signals_absent [OF L])
  show "listeners (procs (unproxySignals p (pe_unproxySignals (fst (proxy p w))) ?w2) q)
           = listeners (procs w q)"
    by (simp add: unproxySignals_fields w2 us fold_remove_last_absent [OF s])
  have m: "(EvMessage, ParentListener (msg_id w)) \<notin> set (listeners (procs w p))"
    by (rule fresh_listener_absent [OF L]) (simp add: msg_id_def)
  show "listeners (procs (unproxyMessages (pe_unproxyMessages (fst (proxy p w))) ?w2) q)
           = listeners (procs w q)"
    by (simp add: unproxyMessages_fields w2 um remove_last_absent [OF m])
  have c: "(EvMessage, ChildListener (msg_id w) p)
             \<notin> set (c_listeners (child w) @ [(EvClose, OnClose (exit_id p w))])"
    using fresh_listener_absent [OF C, of "ChildListener (msg_id w) p" EvMessage]
    by (simp add: msg_id_def)
  show "c_listeners (child (unproxyMessages (pe_unproxyMessages (fst (proxy p w))) ?w2))
           = c_listeners (child w) @ [(EvClose, OnClose (exit_id p w))]"
    by (simp add: unproxyMessages_fields c2 um remove_last_absent [OF c])
  have "\<forall>x\<in>set (stream_pairs p (child w)). x \<notin> set (pipes w)"
    using f by (intro fresh_pairs_absent) (simp add: fresh_world_def)
  moreover have "stream_pairs p (child ?w2) = stream_pairs p (child w)"
    by (simp add: stream_pairs_def proxy_fields onClose_fields)
  ultimately show "pipes (unproxyStreams p ?w2) = pipes w"
    by (simp add: unproxyStreams_fields p2 fold_remove1_absent)
qed

lemma fresh_world_record_call: "fresh_world p (record_call c w) = fresh_world p w"
  by (simp add: fresh_world_def record_call_def)

lemma legacy_idle_handler:
  "h_invocations (le_cb env) = 0 \<Longrightarrow> procs (legacy_onClose env code sig w) = procs w"
  by (simp add: legacy_onClose_eq call_cb_def Let_def prim_defs split: option.splits)

lemma legacy_invoke_listeners:
  assumes d: "distinct (signal_list w)"
  shows "filter (\<lambda>el. fst el \<noteq> EvMessage)
           (listeners (procs (invoke \<lparr>cf_code = code, cf_signal = sig,
                                 cf_body = LegacyClose (le_unproxySignals (fst (foregroundChild a w)))
                                             (le_childHangup (fst (foregroundChild a w)))\<rparr>
                         (snd (foregroundChild a w))) Process))
         = filter (\<lambda>el. fst el \<noteq> EvMessage) (listeners (procs w Process))"
proof -
  let ?es = "sig_entries (next_id w) (signal_list w)"
  let ?x = "(EvExit, ChildHangup (exit_id Process w))"
  have dd: "distinct (map fst ?es)" using d by (simp add: map_fst_sig_entries)
  have r: "remove_last ?x
             (fold (\<lambda>(s, l). remove_last (EvSignal s, l)) ?es
                (K @ map (\<lambda>(s, l). (EvSignal s, l)) ?es @ M @ [?x])) = K @ M"
    if "\<forall>e\<in>set M. fst e = EvMessage" for K M
  proof -
    have "fold (\<lambda>(s, l). remove_last (EvSignal s, l)) ?es
            (K @ map (\<lambda>(s, l). (EvSignal s, l)) ?es @ (M @ [?x])) = K @ (M @ [?x])"
      using dd that by (intro fold_remove_last_restores) auto
    moreover have "remove_last ?x ((K @ M) @ ?x # []) = (K @ M) @ []"
      by (rule remove_last_mid) simp
    ultimately show ?thesis by simp
  qed
  show ?thesis
    using r [of "[]"] r [of "[(EvMessage, ParentListener (msg_id w))]"]
    by (simp add: invoke_legacy_fields foregroundChild_fields sig_map_distinct [OF d])
qed

lemma invoke_extends: "\<exists>r. trace (invoke cf w) = trace w @ r"
proof (cases cf)
  case (fields code sig body)
  show ?thesis
    by (cases body) (simp_all add: fields invoke_modern_fields invoke_legacy_fields)
qed

lemma invoke_times_extends: "\<exists>r. trace (invoke_times n cf w) = trace w @ r"
proof (induction n arbitrary: w)
  case 0
  show ?case by simp
next
  case (Suc n)
  obtain r1 where r1: "trace (invoke cf w) = trace w @ r1"
    using invoke_extends by blast
  obtain r2 where r2: "trace (invoke_times n cf (invoke cf w)) = trace (invoke cf w) @ r2"
    using Suc.IH by blast
  show ?case by (simp add: Let_def r1 r2)
qed

lemma legacy_onClose_prefix:
  "take (length (trace w) + 2) (trace (legacy_onClose env code sig w))
     = trace w
       @ [SetExitCode (if truthy_signal sig then JStr (''128'' @ the sig) else code_value code),
          CallCb \<lparr>cf_code = code, cf_signal = sig,
                  cf_body = LegacyClose (le_unproxySignals env) (le_childHangup env)\<rparr>]"
proof -
  let ?cf = "\<lparr>cf_code = code, cf_signal = sig,
              cf_body = LegacyClose (le_unproxySignals env) (le_childHangup env)\<rparr>"
  let ?v = "if truthy_signal sig then JStr (''128'' @ the sig) else code_value code"
  let ?w2 = "case h_set_exit (le_cb env) of
               None \<Rightarrow> record_call (CallCb ?cf) (set_exitCode ?v w)
             | Some v \<Rightarrow> set_exitCode v (record_call (CallCb ?cf) (set_exitCode ?v w))"
  obtain r where r: "trace (invoke_times (h_invocations (le_cb env)) ?cf ?w2) = trace ?w2 @ r"
    using invoke_times_extends by blast
  have "\<exists>r'. trace ?w2 = trace w @ [SetExitCode ?v, CallCb ?cf] @ r'"
    by (simp add: prim_defs split: option.splits)
  then obtain r' where r': "trace ?w2 = trace w @ [SetExitCode ?v, CallCb ?cf] @ r'" by blast
  have "trace (legacy_onClose env code sig w) = trace w @ [SetExitCode ?v, CallCb ?cf] @ r' @ r"
    using r r' by (simp add: legacy_onClose_eq call_cb_def Let_def)
  then show ?thesis by simp
qed

section \<open>The stdio policy: properties\<close>

text \<open>
  C7. The stdio policy is a total function of the base value and the IPC flag. An absent
  base behaves as the mode string "inherit"; without IPC the base comes back unchanged;
  with IPC a mode string \<open>s\<close> becomes the list of three copies of \<open>s\<close> followed by "ipc";
  a list without an "ipc" entry gets one appended at the end; a list that already has an
  "ipc" entry comes back unchanged.
\<close>

theorem getStdio_policy:
  "getStdio None withIpc = getStdio (Some (StdioMode ''inherit'')) withIpc
   \<and> getStdio (Some b) False = b
   \<and> getStdio (Some (StdioMode s)) True = StdioList [SMode s, SMode s, SMode s, SMode ''ipc'']
   \<and> (SMode ''ipc'' \<notin> set xs \<longrightarrow>
        getStdio (Some (StdioList xs)) True = StdioList (xs @ [SMode ''ipc'']))
   \<and> (SMode ''ipc'' \<in> set ys \<longrightarrow>
        getStdio (Some (StdioList ys)) True = StdioList ys)"
  by (simp add: getStdio_def)

theorem getStdio_policy_witness:
  "getStdio None True = StdioList [SMode ''inherit'', SMode ''inherit'', SMode ''inherit'', SMode ''ipc'']
   \<and> getStdio (Some (StdioList [SFd 0, SMode ''pipe''])) False = StdioList [SFd 0, SMode ''pipe'']
   \<and> SMode ''ipc'' \<notin> set [SMode ''pipe'', SNull]
   \<and> getStdio (Some (StdioList [SMode ''pipe'', SNull])) True
       = StdioList [SMode ''pipe'', SNull, SMode ''ipc'']
   \<and> SMode ''ipc'' \<in> set [SMode ''ignore'', SMode ''ipc'', SFd 2]
   \<and> getStdio (Some (StdioList [SMode ''ignore'', SMode ''ipc'', SFd 2])) True
       = StdioList [SMode ''ignore'', SMode ''ipc'', SFd 2]"
  using getStdio_policy [of True "StdioList [SFd 0, SMode ''pipe'']" "''inherit''"
      "[SMode ''pipe'', SNull]" "[SMode ''ignore'', SMode ''ipc'', SFd 2]"]
  by simp

section \<open>Mirroring the child's termination\<close>

text \<open>
  C1. When the child's close event reaches \<^verbatim>\<open>onClose\<close> while the promise is pending: for
  an exit code \<open>c\<close> and no signal, the promise resolves with a close function carrying
  code \<open>c\<close> and signal null, and invoking that function makes exactly one termination call,
  \<^verbatim>\<open>parent.exit(c)\<close>; for a signal \<open>s\<close> and no code, the close function carries signal
  \<open>s\<close> and code null, and invoking it makes exactly one termination call,
  \<^verbatim>\<open>parent.kill(parent.pid, s)\<close>.
\<close>

theorem close_action_mirrors_child:
  "(resolved w = None \<longrightarrow>
      resolved (onClose env (Some c) None w)
        = Some \<lparr>cf_code = Some c, cf_signal = None, cf_body = ModernClose (pe_parent env)\<rparr>
      \<and> resolved (onClose env None (Some s) w)
        = Some \<lparr>cf_code = None, cf_signal = Some s, cf_body = ModernClose (pe_parent env)\<rparr>)
   \<and> filter is_termination
        (trace (invoke \<lparr>cf_code = Some c, cf_signal = None, cf_body = ModernClose parent\<rparr> w'))
       = filter is_termination (trace w') @ [Exit parent (JNum c)]
   \<and> filter is_termination
        (trace (invoke \<lparr>cf_code = None, cf_signal = Some s, cf_body = ModernClose parent\<rparr> w'))
       = filter is_termination (trace w') @ [Kill parent (pid (procs w' parent)) s]"
proof -
  have r: "resolved (onClose env code sig w)
      = (case resolved w of None \<Rightarrow> Some \<lparr>cf_code = code, cf_signal = sig, cf_body = ModernClose (pe_parent env)\<rparr>
         | Some x \<Rightarrow> Some x)" for code sig
    by (simp add: onClose_def resolve_def Let_def prim_defs unproxySignals_fields unproxyStreams_fields unproxyMessages_fields)
  have e: "filter is_termination
        (trace (invoke \<lparr>cf_code = Some c, cf_signal = None, cf_body = ModernClose parent\<rparr> w'))
       = filter is_termination (trace w') @ [Exit parent (JNum c)]"
    by (simp add: invoke_def proc_exit_fields code_value_def filter_term_kills)
  have k: "filter is_termination
        (trace (invoke \<lparr>cf_code = None, cf_signal = Some s, cf_body = ModernClose parent\<rparr> w'))
       = filter is_termination (trace w') @ [Kill parent (pid (procs w' parent)) s]"
    by (simp add: invoke_def Let_def prim_defs)
  show ?thesis using r e k by simp
qed

text \<open>C1 at \<^verbatim>\<open>spawn("cat")\<close> on the real process, for exit code 7 and for SIGTERM.\<close>

theorem close_action_mirrors_child_witness:
  "resolved (snd (spawn ''cat'' None None (start_world False False []))) = None
   \<and> resolved (onClose (fst (spawn ''cat'' None None (start_world False False []))) (Some 7) None
                 (snd (spawn ''cat'' None None (start_world False False []))))
       = Some \<lparr>cf_code = Some 7, cf_signal = None, cf_body = ModernClose Process\<rparr>
   \<and> resolved (onClose (fst (spawn ''cat'' None None (start_world False False []))) None (Some ''SIGTERM'')
                 (snd (spawn ''cat'' None None (start_world False False []))))
       = Some \<lparr>cf_code = None, cf_signal = Some ''SIGTERM'', cf_body = ModernClose Process\<rparr>
   \<and> filter is_termination
        (trace (invoke \<lparr>cf_code = Some 7, cf_signal = None, cf_body = ModernClose Process\<rparr>
                  (start_world False False [])))
       = [Exit Process (JNum 7)]
   \<and> filter is_termination
        (trace (invoke \<lparr>cf_code = None, cf_signal = Some ''SIGTERM'', cf_body = ModernClose Process\<rparr>
                  (start_world False False [])))
       = [Kill Process 4242 ''SIGTERM'']"
  using close_action_mirrors_child
    [of "snd (spawn ''cat'' None None (start_world False False []))"
        "fst (spawn ''cat'' None None (start_world False False []))" 7 "''SIGTERM''" Process
        "start_world False False []"]
  by (simp add: spawn_eq proxy_fields record_call_fields parent_of_def eval_defs)

section \<open>The exit code set by the legacy close listener\<close>

text \<open>
  C4. The close listener of \<^verbatim>\<open>foregroundChild\<close> assigns \<^verbatim>\<open>process.exitCode\<close> first and calls
  the callback afterwards. For a child that was terminated by SIGTERM, the value assigned
  by \<^verbatim>\<open>128 + signal\<close> is the string "128SIGTERM": the signal is a name, and adding a
  string concatenates. The run below is \<^verbatim>\<open>foregroundChild("cat")\<close> with the default
  callback.
\<close>

theorem legacy_exit_code_for_SIGTERM:
  "trace (legacy_onClose (fst (foregroundChild [AStr ''cat''] (start_world False False [])))
            None (Some ''SIGTERM'')
            (snd (foregroundChild [AStr ''cat''] (start_world False False []))))
     = trace (snd (foregroundChild [AStr ''cat''] (start_world False False [])))
       @ [SetExitCode (JStr ''128SIGTERM''),
          CallCb \<lparr>cf_code = None, cf_signal = Some ''SIGTERM'',
                  cf_body = LegacyClose [(''SIGINT'', SigListener 0 ''SIGINT''),
                                         (''SIGTERM'', SigListener 1 ''SIGTERM'')] (ChildHangup 2)\<rparr>,
          RemoveListener Process (EvSignal ''SIGINT'') (SigListener 0 ''SIGINT''),
          RemoveListener Process (EvSignal ''SIGTERM'') (SigListener 1 ''SIGTERM''),
          RemoveListener Process EvExit (ChildHangup 2),
          SetTimeout 200,
          Kill Process 4242 ''SIGTERM'']
   \<and> exitCode (legacy_onClose (fst (foregroundChild [AStr ''cat''] (start_world False False [])))
            None (Some ''SIGTERM'')
            (snd (foregroundChild [AStr ''cat''] (start_world False False []))))
     = JStr ''128SIGTERM''"
  by (simp add: legacy_onClose_eq call_cb_def Let_def foregroundChild_fields invoke_legacy_fields
      record_call_fields set_exitCode_def eval_defs)

section \<open>The options passed to the process-creation function\<close>

text \<open>
  C8, as the code has it. The first call \<^verbatim>\<open>spawn\<close> makes is the process creation: with the
  function given in \<^verbatim>\<open>options.spawn\<close> or else \<^verbatim>\<open>cp.spawn\<close>, with the file, with the
  arguments or else the empty list, and with an options object that keeps every other
  field of the caller's options. The fields \<^verbatim>\<open>parent\<close> and \<^verbatim>\<open>spawn\<close> are not removed from
  that object: it always has both keys, each holding \<^verbatim>\<open>undefined\<close>. Its \<^verbatim>\<open>stdio\<close> is the
  result of the stdio policy: the caller's value when the parent has no IPC, with an
  "ipc" entry ensured when it has, and for an omitted \<^verbatim>\<open>stdio\<close> the mode "inherit",
  respectively three times "inherit" and "ipc". The parent that is proxied is
  \<^verbatim>\<open>options.parent\<close> or else the real process.
\<close>

theorem spawn_passes_options:
  "take (Suc (length (trace w))) (trace (snd (spawn file args0 options0 w)))
     = trace w
       @ [SpawnCall (case field_value (opt_spawn (case options0 of None \<Rightarrow> empty_options | Some opts \<Rightarrow> opts)) of
                       None \<Rightarrow> CpSpawn | Some f \<Rightarrow> f)
            (AStr file) (map AStr (case args0 of None \<Rightarrow> [] | Some a \<Rightarrow> a))
            (spawn_options_of (case options0 of None \<Rightarrow> empty_options | Some opts \<Rightarrow> opts)
               (has_send (procs w (parent_of options0))))]
   \<and> pe_parent (fst (spawn file args0 options0 w)) = parent_of options0
   \<and> parent_of None = Process
   \<and> (opt_parent opts = Absent \<or> opt_parent opts = Undef \<longrightarrow> parent_of (Some opts) = Process)
   \<and> (opt_parent opts = Present p \<longrightarrow> parent_of (Some opts) = p)
   \<and> opt_rest (spawn_options_of opts ipc) = opt_rest opts
   \<and> opt_parent (spawn_options_of opts ipc) = Undef
   \<and> opt_spawn (spawn_options_of opts ipc) = Undef
   \<and> (opt_stdio opts = Present b \<longrightarrow> opt_stdio (spawn_options_of opts False) = Present b)
   \<and> (opt_stdio opts = Present (StdioMode s) \<longrightarrow>
        opt_stdio (spawn_options_of opts True)
          = Present (StdioList [SMode s, SMode s, SMode s, SMode ''ipc'']))
   \<and> (opt_stdio opts = Present (StdioList xs) \<longrightarrow>
        opt_stdio (spawn_options_of opts True)
          = Present (StdioList (if SMode ''ipc'' \<in> set xs then xs else xs @ [SMode ''ipc''])))
   \<and> (opt_stdio opts = Absent \<or> opt_stdio opts = Undef \<longrightarrow>
        opt_stdio (spawn_options_of opts False) = Present (StdioMode ''inherit'')
        \<and> opt_stdio (spawn_options_of opts True)
            = Present (StdioList [SMode ''inherit'', SMode ''inherit'', SMode ''inherit'',
                                  SMode ''ipc'']))
   \<and> spawn_options_of empty_options False
       = \<lparr>opt_parent = Undef, opt_spawn = Undef,
          opt_stdio = Present (StdioMode ''inherit''), opt_rest = []\<rparr>"
  by (auto simp add: spawn_eq proxy_fields record_call_fields parent_of_def spawn_options_of_def
      empty_options_def getStdio_def)

text \<open>
  C8 as amended, at three calls: everything omitted on a parent without IPC; parent, spawn
  function and \<^verbatim>\<open>cwd\<close> given on a parent with IPC; \<^verbatim>\<open>stdio\<close> given as "pipe" and the
  parent given as \<^verbatim>\<open>undefined\<close> on a parent without IPC.
\<close>

theorem spawn_passes_options_witness:
  "take 1 (trace (snd (spawn ''cat'' None None (start_world False False []))))
     = [SpawnCall CpSpawn (AStr ''cat'') []
          \<lparr>opt_parent = Undef, opt_spawn = Undef,
           opt_stdio = Present (StdioMode ''inherit''), opt_rest = []\<rparr>]
   \<and> pe_parent (fst (spawn ''cat'' None None (start_world False False []))) = Process
   \<and> take 1 (trace (snd (spawn ''cat'' (Some [''a'', ''b''])
       (Some \<lparr>opt_parent = Present (Fake 1), opt_spawn = Present (CustomSpawn 3), opt_stdio = Absent,
              opt_rest = [(''cwd'', JStr ''/tmp'')]\<rparr>)
       (start_world True False []))))
     = [SpawnCall (CustomSpawn 3) (AStr ''cat'') [AStr ''a'', AStr ''b'']
          \<lparr>opt_parent = Undef, opt_spawn = Undef,
           opt_stdio = Present (StdioList [SMode ''inherit'', SMode ''inherit'', SMode ''inherit'',
                                           SMode ''ipc'']),
           opt_rest = [(''cwd'', JStr ''/tmp'')]\<rparr>]
   \<and> pe_parent (fst (spawn ''cat'' (Some [''a'', ''b''])
       (Some \<lparr>opt_parent = Present (Fake 1), opt_spawn = Present (CustomSpawn 3), opt_stdio = Absent,
              opt_rest = [(''cwd'', JStr ''/tmp'')]\<rparr>)
       (start_world True False []))) = Fake 1
   \<and> take 1 (trace (snd (spawn ''cat'' None
       (Some \<lparr>opt_parent = Undef, opt_spawn = Absent, opt_stdio = Present (StdioMode ''pipe''),
              opt_rest = []\<rparr>)
       (start_world False False []))))
     = [SpawnCall CpSpawn (AStr ''cat'') []
          \<lparr>opt_parent = Undef, opt_spawn = Undef,
           opt_stdio = Present (StdioMode ''pipe''), opt_rest = []\<rparr>]
   \<and> pe_parent (fst (spawn ''cat'' None
       (Some \<lparr>opt_parent = Undef, opt_spawn = Absent, opt_stdio = Present (StdioMode ''pipe''),
              opt_rest = []\<rparr>)
       (start_world False False []))) = Process"
  using spawn_passes_options
    [of "start_world False False []" "''cat''" None None empty_options Process False]
    spawn_passes_options
    [of "start_world True False []" "''cat''" "Some [''a'', ''b'']"
        "Some \<lparr>opt_parent = Present (Fake 1), opt_spawn = Present (CustomSpawn 3),
              opt_stdio = Absent, opt_rest = [(''cwd'', JStr ''/tmp'')]\<rparr>"
        "\<lparr>opt_parent = Present (Fake 1), opt_spawn = Present (CustomSpawn 3),
              opt_stdio = Absent, opt_rest = [(''cwd'', JStr ''/tmp'')]\<rparr>" "Fake 1" True]
    spawn_passes_options
    [of "start_world False False []" "''cat''" None
        "Some \<lparr>opt_parent = Undef, opt_spawn = Absent,
              opt_stdio = Present (StdioMode ''pipe''), opt_rest = []\<rparr>"
        "\<lparr>opt_parent = Undef, opt_spawn = Absent,
              opt_stdio = Present (StdioMode ''pipe''), opt_rest = []\<rparr>" Process False
        "StdioMode ''pipe''"]
  by (simp add: parent_of_def spawn_options_of_def eval_defs empty_options_def)

text \<open>
  C8 fails as stated: the options object handed to the process-creation function still
  has the keys \<^verbatim>\<open>parent\<close> and \<^verbatim>\<open>spawn\<close>. They hold \<^verbatim>\<open>undefined\<close> where the caller had given
  values, and they are present as well where the caller had supplied no options at all.
\<close>

theorem spawn_keeps_parent_and_spawn_keys:
  "take 1 (trace (snd (spawn ''cat'' None
       (Some \<lparr>opt_parent = Present (Fake 1), opt_spawn = Present (CustomSpawn 3), opt_stdio = Absent,
              opt_rest = [(''cwd'', JStr ''/tmp'')]\<rparr>)
       (start_world False False []))))
     = [SpawnCall (CustomSpawn 3) (AStr ''cat'') []
          \<lparr>opt_parent = Undef, opt_spawn = Undef,
           opt_stdio = Present (StdioMode ''inherit''), opt_rest = [(''cwd'', JStr ''/tmp'')]\<rparr>]
   \<and> opt_parent (spawn_options_of
         \<lparr>opt_parent = Present (Fake 1), opt_spawn = Present (CustomSpawn 3), opt_stdio = Absent,
          opt_rest = [(''cwd'', JStr ''/tmp'')]\<rparr> False) \<noteq> Absent
   \<and> opt_spawn (spawn_options_of
         \<lparr>opt_parent = Present (Fake 1), opt_spawn = Present (CustomSpawn 3), opt_stdio = Absent,
          opt_rest = [(''cwd'', JStr ''/tmp'')]\<rparr> False) \<noteq> Absent
   \<and> take 1 (trace (snd (spawn ''cat'' None None (start_world False False []))))
     = [SpawnCall CpSpawn (AStr ''cat'') []
          \<lparr>opt_parent = Undef, opt_spawn = Undef,
           opt_stdio = Present (StdioMode ''inherit''), opt_rest = []\<rparr>]
   \<and> opt_parent (spawn_options_of empty_options False) \<noteq> opt_parent empty_options"
  by (simp add: spawn_eq proxy_fields record_call_fields parent_of_def spawn_options_of_def
      eval_defs empty_options_def)

section \<open>Message listeners that were registered before the call\<close>

text \<open>
  C10. When the real process has \<^verbatim>\<open>send\<close>, \<^verbatim>\<open>foregroundChild\<close> calls
  \<^verbatim>\<open>process.removeAllListeners("message")\<close> right after creating the child and before any
  listener is attached, so afterwards the only message listener of the process is the
  relay's own; without \<^verbatim>\<open>send\<close> the message listeners stay as they were. \<^verbatim>\<open>spawn\<close> never
  calls \<^verbatim>\<open>removeAllListeners\<close>: it keeps the message listeners of every process object and
  only appends the relay's listener on the parent.
\<close>

theorem legacy_discards_message_listeners:
  "(has_send (procs w Process) \<longrightarrow>
      listeners_for EvMessage (listeners (procs (snd (foregroundChild a w)) Process))
        = [ParentListener (msg_id w)]
      \<and> trace (snd (foregroundChild a w))
        = trace w
          @ [SpawnCall (if win32 w then CrossSpawn else CpSpawn)
               (n_program (normalizeArguments a)) (n_args (normalizeArguments a))
               \<lparr>opt_parent = Absent, opt_spawn = Absent,
                opt_stdio = Present (StdioList [SMode ''inherit'', SMode ''inherit'', SMode ''inherit'',
                                                SMode ''ipc'']),
                opt_rest = []\<rparr>,
             RemoveAllListeners Process EvMessage]
          @ map (\<lambda>(s, l). On Process (EvSignal s) l) (sig_entries (next_id w) (signal_list w))
          @ [ChildOn EvMessage (ChildListener (msg_id w) Process),
             On Process EvMessage (ParentListener (msg_id w)),
             On Process EvExit (ChildHangup (exit_id Process w)),
             ChildOn EvClose (LegacyOnClose (exit_id Process w))])
   \<and> (\<not> has_send (procs w Process) \<longrightarrow>
        listeners_for EvMessage (listeners (procs (snd (foregroundChild a w)) Process))
          = listeners_for EvMessage (listeners (procs w Process)))
   \<and> listeners_for EvMessage (listeners (procs (snd (spawn file args0 options0 w)) q))
       = listeners_for EvMessage (listeners (procs w q))
         @ (if q = parent_of options0 \<and> has_send (procs w q) then [ParentListener (msg_id w)] else [])
   \<and> RemoveAllListeners q ev \<notin> set (drop (length (trace w)) (trace (snd (spawn file args0 options0 w))))"
  by (auto simp add: foregroundChild_fields spawn_eq proxy_fields record_call_fields
      listeners_for_simps listeners_for_message_signals listeners_for_message_removed
      getStdio_def msg_id_def exit_id_def stream_pairs_def)

text \<open>C10 at a process that had a message listener and an exit listener of its own.\<close>

theorem legacy_discards_message_listeners_witness:
  "has_send (procs (start_world True False [(EvMessage, Foreign 9), (EvExit, Foreign 8)]) Process)
   \<and> listeners (procs (snd (foregroundChild [AStr ''cat'']
        (start_world True False [(EvMessage, Foreign 9), (EvExit, Foreign 8)]))) Process)
     = [(EvExit, Foreign 8),
        (EvSignal ''SIGINT'', SigListener 0 ''SIGINT''),
        (EvSignal ''SIGTERM'', SigListener 1 ''SIGTERM''),
        (EvMessage, ParentListener 2),
        (EvExit, ChildHangup 3)]
   \<and> listeners_for EvMessage (listeners (procs (snd (foregroundChild [AStr ''cat'']
        (start_world True False [(EvMessage, Foreign 9), (EvExit, Foreign 8)]))) Process))
     = [ParentListener 2]
   \<and> \<not> has_send (procs (start_world False False [(EvMessage, Foreign 9)]) Process)
   \<and> listeners_for EvMessage (listeners (procs (snd (foregroundChild [AStr ''cat'']
        (start_world False False [(EvMessage, Foreign 9)]))) Process))
     = [Foreign 9]
   \<and> listeners_for EvMessage (listeners (procs (snd (spawn ''cat'' None None
        (start_world True False [(EvMessage, Foreign 9), (EvExit, Foreign 8)]))) Process))
     = [Foreign 9, ParentListener 2]"
  using legacy_discards_message_listeners
    [of "start_world True False [(EvMessage, Foreign 9), (EvExit, Foreign 8)]" "[AStr ''cat'']"
        "''cat''" None None Process]
    legacy_discards_message_listeners
    [of "start_world False False [(EvMessage, Foreign 9)]" "[AStr ''cat'']"
        "''cat''" None None Process]
  by (simp add: foregroundChild_fields parent_of_def eval_defs listeners_for_simps)

section \<open>Process creation and the hangup on exit\<close>

text \<open>
  C3, as the code has it. Neither entry point starts a helper process or a timer when it
  spawns: \<^verbatim>\<open>spawn\<close> and \<^verbatim>\<open>foregroundChild\<close> each make exactly one process-creation call,
  for the child. What they install against the parent's exit is one listener for the
  exit event of the parent, and that listener sends SIGHUP to the child.
\<close>

theorem only_the_child_is_spawned:
  "filter is_spawn (trace (snd (spawn file args0 options0 w)))
     = filter is_spawn (trace w)
       @ [SpawnCall (case field_value (opt_spawn (case options0 of None \<Rightarrow> empty_options | Some opts \<Rightarrow> opts)) of
                       None \<Rightarrow> CpSpawn | Some f \<Rightarrow> f)
            (AStr file) (map AStr (case args0 of None \<Rightarrow> [] | Some a \<Rightarrow> a))
            (spawn_options_of (case options0 of None \<Rightarrow> empty_options | Some opts \<Rightarrow> opts)
               (has_send (procs w (parent_of options0))))]
   \<and> filter is_spawn (trace (snd (foregroundChild a w)))
     = filter is_spawn (trace w)
       @ [SpawnCall (if win32 w then CrossSpawn else CpSpawn)
            (n_program (normalizeArguments a)) (n_args (normalizeArguments a))
            \<lparr>opt_parent = Absent, opt_spawn = Absent,
             opt_stdio = Present (getStdio (Some (StdioMode ''inherit'')) (has_send (procs w Process))),
             opt_rest = []\<rparr>]
   \<and> filter is_timer (trace (snd (spawn file args0 options0 w))) = filter is_timer (trace w)
   \<and> filter is_timer (trace (snd (foregroundChild a w))) = filter is_timer (trace w)
   \<and> listeners_for EvExit (listeners (procs (snd (spawn file args0 options0 w)) (parent_of options0)))
     = listeners_for EvExit (listeners (procs w (parent_of options0)))
       @ [pe_onParentExit (fst (spawn file args0 options0 w))]
   \<and> listeners_for EvExit (listeners (procs (snd (foregroundChild a w)) Process))
     = listeners_for EvExit (listeners (procs w Process))
       @ [le_childHangup (fst (foregroundChild a w))]
   \<and> run_listener (pe_onParentExit (fst (spawn file args0 options0 w))) w' = child_kill ''SIGHUP'' w'
   \<and> run_listener (le_childHangup (fst (foregroundChild a w))) w' = child_kill ''SIGHUP'' w'"
  by (simp add: spawn_eq proxy_fields foregroundChild_fields record_call_fields
      filter_spawn_attach stream_pairs_def listeners_for_simps listeners_for_exit_signals
      listeners_for_exit_removed)

text \<open>
  C3 fails as stated: in a whole run of either entry point (spawn, close with exit code 0,
  close function invoked) the child is the only process that is created.
\<close>

theorem no_watchdog_is_spawned:
  "length (filter is_spawn
     (trace (invoke \<lparr>cf_code = Some 0, cf_signal = None, cf_body = ModernClose (Fake 1)\<rparr>
        (onClose (fst (spawn ''cat'' None
                    (Some \<lparr>opt_parent = Present (Fake 1), opt_spawn = Absent, opt_stdio = Absent, opt_rest = []\<rparr>)
                    (start_world False False [])))
           (Some 0) None
           (snd (spawn ''cat'' None
                    (Some \<lparr>opt_parent = Present (Fake 1), opt_spawn = Absent, opt_stdio = Absent, opt_rest = []\<rparr>)
                    (start_world False False []))))))) = 1
   \<and> length (filter is_spawn
        (trace (legacy_onClose (fst (foregroundChild [AStr ''cat''] (start_world False False [])))
           (Some 0) None (snd (foregroundChild [AStr ''cat''] (start_world False False [])))))) = 1"
  by (simp add: legacy_onClose_eq call_cb_def Let_def foregroundChild_fields invoke_legacy_fields
      invoke_modern_fields onClose_fields spawn_eq proxy_fields parent_of_def
      record_call_fields set_exitCode_def eval_defs filter_spawn_kills)

section \<open>The value returned by a close handler\<close>

text \<open>
  C2, as the code has it. The legacy close listener calls the handler with the close
  function and drops the value the handler returns: replacing that value changes nothing.
  The parent is terminated only by the handler invoking the close function: a handler
  that does not invoke it leaves the parent without any termination call, whatever it
  returns, and a handler that invokes it once causes the one termination call the close
  function makes. The default handler invokes it once. The modern close listener involves
  no handler: it resolves the promise and makes no termination call.
\<close>

theorem handler_result_is_ignored:
  "legacy_onClose (env\<lparr>le_cb := h\<lparr>h_result := r\<rparr>\<rparr>) code sig w
     = legacy_onClose (env\<lparr>le_cb := h\<rparr>) code sig w
   \<and> (h_invocations h = 0 \<longrightarrow>
        filter is_termination (trace (legacy_onClose (env\<lparr>le_cb := h\<rparr>) code sig w))
          = filter is_termination (trace w))
   \<and> (h_invocations h = 1 \<longrightarrow>
        filter is_termination (trace (legacy_onClose (env\<lparr>le_cb := h\<rparr>) code sig w))
          = filter is_termination (trace w)
            @ [if truthy_signal sig then Kill Process (pid (procs w Process)) (the sig)
               else Exit Process (case h_set_exit h of None \<Rightarrow> code_value code | Some v \<Rightarrow> v)])
   \<and> le_cb (fst (foregroundChild [AStr prog] w')) = default_cb
   \<and> h_invocations default_cb = 1
   \<and> filter is_termination (trace (onClose penv code sig w)) = filter is_termination (trace w)"
proof -
  have a: "legacy_onClose (env\<lparr>le_cb := h\<lparr>h_result := r\<rparr>\<rparr>) code sig w
     = legacy_onClose (env\<lparr>le_cb := h\<rparr>) code sig w"
    by (simp add: legacy_onClose_eq call_cb_def Let_def)
  have b: "filter is_termination (trace (legacy_onClose (env\<lparr>le_cb := h\<rparr>) code sig w))
          = filter is_termination (trace w)" if "h_invocations h = 0"
    using that by (simp add: legacy_onClose_eq call_cb_def Let_def prim_defs split: option.splits)
  have c: "filter is_termination (trace (legacy_onClose (env\<lparr>le_cb := h\<rparr>) code sig w))
          = filter is_termination (trace w)
            @ [if truthy_signal sig then Kill Process (pid (procs w Process)) (the sig)
               else Exit Process (case h_set_exit h of None \<Rightarrow> code_value code | Some v \<Rightarrow> v)]"
    if "h_invocations h = 1"
    using that
    by (simp add: legacy_onClose_eq call_cb_def Let_def invoke_legacy_fields filter_term_detach
        filter_term_kills prim_defs split: option.splits)
  have d: "le_cb (fst (foregroundChild [AStr prog] w')) = default_cb"
    by (simp add: foregroundChild_fields normalizeArguments_def nth_arg_def)
  have e: "h_invocations default_cb = 1" by (simp add: default_cb_def)
  show ?thesis using a b c d e filter_term_onClose by simp
qed

text \<open>
  C2 as amended, at a handler that returns 2 without invoking the close function and at a
  handler that sets the exit code to 5, invokes the close function and returns false.
\<close>

theorem handler_result_is_ignored_witness:
  "h_invocations \<lparr>h_set_exit = None, h_invocations = 0, h_result = JNum 2\<rparr> = 0
   \<and> filter is_termination
        (trace (legacy_onClose
           (fst (foregroundChild [AStr ''cat'', AFun \<lparr>h_set_exit = None, h_invocations = 0, h_result = JNum 2\<rparr>]
                   (start_world False False [])))
           None (Some ''SIGINT'')
           (snd (foregroundChild [AStr ''cat'', AFun \<lparr>h_set_exit = None, h_invocations = 0, h_result = JNum 2\<rparr>]
                   (start_world False False []))))) = []
   \<and> h_invocations \<lparr>h_set_exit = Some (JNum 5), h_invocations = 1, h_result = JBool False\<rparr> = 1
   \<and> filter is_termination
        (trace (legacy_onClose
           (fst (foregroundChild [AStr ''cat'', AFun \<lparr>h_set_exit = Some (JNum 5), h_invocations = 1, h_result = JBool False\<rparr>]
                   (start_world False False [])))
           (Some 1) None
           (snd (foregroundChild [AStr ''cat'', AFun \<lparr>h_set_exit = Some (JNum 5), h_invocations = 1, h_result = JBool False\<rparr>]
                   (start_world False False []))))) = [Exit Process (JNum 5)]"
  using handler_result_is_ignored
    [where env = "fst (foregroundChild [AStr ''cat'', AFun \<lparr>h_set_exit = None, h_invocations = 0, h_result = JNum 2\<rparr>]
                   (start_world False False []))"
       and h = "\<lparr>h_set_exit = None, h_invocations = 0, h_result = JNum 2\<rparr>" and r = "JNum 2"
       and code = None and sig = "Some ''SIGINT''"
       and w = "snd (foregroundChild [AStr ''cat'', AFun \<lparr>h_set_exit = None, h_invocations = 0, h_result = JNum 2\<rparr>]
                   (start_world False False []))"]
    handler_result_is_ignored
    [where env = "fst (foregroundChild [AStr ''cat'', AFun \<lparr>h_set_exit = Some (JNum 5), h_invocations = 1, h_result = JBool False\<rparr>]
                   (start_world False False []))"
       and h = "\<lparr>h_set_exit = Some (JNum 5), h_invocations = 1, h_result = JBool False\<rparr>"
       and r = "JBool False" and code = "Some 1" and sig = None
       and w = "snd (foregroundChild [AStr ''cat'', AFun \<lparr>h_set_exit = Some (JNum 5), h_invocations = 1, h_result = JBool False\<rparr>]
                   (start_world False False []))"]
  by (simp add: foregroundChild_fields eval_defs filter_spawn_attach record_call_fields)

text \<open>
  C2 fails as stated. A handler that returns "SIGTERM" for a child that exited with code 0
  does not get SIGTERM raised on the parent; one that returns 2 for a child killed by
  SIGINT does not get the parent to exit with 2; one that returns undefined without
  invoking the close function leaves the parent running; one that returns false after
  invoking the close function has the parent exit all the same.
\<close>

theorem handler_return_value_has_no_effect:
  "Kill Process 4242 ''SIGTERM'' \<notin> set
     (trace (legacy_onClose
        (fst (foregroundChild [AStr ''cat'', AFun \<lparr>h_set_exit = None, h_invocations = 0, h_result = JStr ''SIGTERM''\<rparr>]
                (start_world False False [])))
        (Some 0) None
        (snd (foregroundChild [AStr ''cat'', AFun \<lparr>h_set_exit = None, h_invocations = 0, h_result = JStr ''SIGTERM''\<rparr>]
                (start_world False False [])))))
   \<and> Exit Process (JNum 2) \<notin> set
     (trace (legacy_onClose
        (fst (foregroundChild [AStr ''cat'', AFun \<lparr>h_set_exit = None, h_invocations = 0, h_result = JNum 2\<rparr>]
                (start_world False False [])))
        None (Some ''SIGINT'')
        (snd (foregroundChild [AStr ''cat'', AFun \<lparr>h_set_exit = None, h_invocations = 0, h_result = JNum 2\<rparr>]
                (start_world False False [])))))
   \<and> filter is_termination
     (trace (legacy_onClose
        (fst (foregroundChild [AStr ''cat'', AFun \<lparr>h_set_exit = None, h_invocations = 0, h_result = JUndefined\<rparr>]
                (start_world False False [])))
        (Some 1) None
        (snd (foregroundChild [AStr ''cat'', AFun \<lparr>h_set_exit = None, h_invocations = 0, h_result = JUndefined\<rparr>]
                (start_world False False []))))) = []
   \<and> filter is_termination
     (trace (legacy_onClose
        (fst (foregroundChild [AStr ''cat'', AFun \<lparr>h_set_exit = None, h_invocations = 1, h_result = JBool False\<rparr>]
                (start_world False False [])))
        (Some 1) None
        (snd (foregroundChild [AStr ''cat'', AFun \<lparr>h_set_exit = None, h_invocations = 1, h_result = JBool False\<rparr>]
                (start_world False False []))))) = [Exit Process (JNum 1)]"
  by (simp add: legacy_onClose_eq call_cb_def Let_def foregroundChild_fields invoke_legacy_fields
      record_call_fields set_exitCode_def eval_defs code_value_def remove_last_def listeners_for_simps)

section \<open>Invoking a close function again\<close>

text \<open>
  C9, as the code has it. A close function has no guard against a further invocation: the
  termination call depends only on its fixed fields and on the parent, and invoking the
  function twice makes that call twice, in the modern and in the legacy closure.
\<close>

theorem close_action_repeats:
  "filter is_termination
     (trace (invoke \<lparr>cf_code = code, cf_signal = sig, cf_body = ModernClose p\<rparr>
               (invoke \<lparr>cf_code = code, cf_signal = sig, cf_body = ModernClose p\<rparr> w)))
     = filter is_termination (trace w)
       @ [case sig of Some s \<Rightarrow> Kill p (pid (procs w p)) s | None \<Rightarrow> Exit p (code_value code),
          case sig of Some s \<Rightarrow> Kill p (pid (procs w p)) s | None \<Rightarrow> Exit p (code_value code)]
   \<and> filter is_termination
     (trace (invoke \<lparr>cf_code = code, cf_signal = sig, cf_body = LegacyClose ls h\<rparr>
               (invoke \<lparr>cf_code = code, cf_signal = sig, cf_body = LegacyClose ls h\<rparr> w)))
     = filter is_termination (trace w)
       @ [if truthy_signal sig then Kill Process (pid (procs w Process)) (the sig)
          else Exit Process (exitCode w),
          if truthy_signal sig then Kill Process (pid (procs w Process)) (the sig)
          else Exit Process (exitCode w)]"
  by (cases sig)
    (simp_all add: invoke_modern_fields invoke_legacy_fields filter_term_detach filter_term_kills)

text \<open>
  C9 fails as stated: on a parent object whose \<^verbatim>\<open>exit\<close> returns, the second invocation of
  the modern close function calls \<^verbatim>\<open>exit(3)\<close> a second time.
\<close>

theorem close_action_not_idempotent:
  "filter is_termination
     (trace (invoke \<lparr>cf_code = Some 3, cf_signal = None, cf_body = ModernClose (Fake 1)\<rparr>
               (start_world False False [])))
     = [Exit (Fake 1) (JNum 3)]
   \<and> filter is_termination
     (trace (invoke \<lparr>cf_code = Some 3, cf_signal = None, cf_body = ModernClose (Fake 1)\<rparr>
               (invoke \<lparr>cf_code = Some 3, cf_signal = None, cf_body = ModernClose (Fake 1)\<rparr>
                  (start_world False False []))))
     = [Exit (Fake 1) (JNum 3), Exit (Fake 1) (JNum 3)]"
  by (simp add: invoke_modern_fields eval_defs code_value_def)

section \<open>The order of teardown, hand-over and termination\<close>

text \<open>
  C6, as the code has it. In the modern close listener every detach call and the removal
  of the parent's exit listener come first, resolving the promise with the close function
  is the last call, and no termination call is made. In the legacy close listener the
  first two calls are the assignment of the exit code and the hand-over of the close
  function to the callback, with no detach before them; inside the legacy close function
  the signal listeners are removed, then the parent's exit listener, and only then comes
  the termination call.
\<close>

theorem teardown_order:
  "trace (onClose env code sig w)
     = trace w
       @ unproxy_calls (pe_unproxyMessages env)
       @ map (\<lambda>(a, b). Unpipe a b) (stream_pairs (pe_parent env) (child w))
       @ map (\<lambda>(s, l). RemoveListener (pe_parent env) (EvSignal s) l) (pe_unproxySignals env)
       @ [RemoveListener (pe_parent env) EvExit (pe_onParentExit env),
          Resolve \<lparr>cf_code = code, cf_signal = sig, cf_body = ModernClose (pe_parent env)\<rparr>]
   \<and> filter is_termination (trace (onClose env code sig w)) = filter is_termination (trace w)
   \<and> take (length (trace w) + 2) (trace (legacy_onClose lenv code sig w))
     = trace w
       @ [SetExitCode (if truthy_signal sig then JStr (''128'' @ the sig) else code_value code),
          CallCb \<lparr>cf_code = code, cf_signal = sig,
                  cf_body = LegacyClose (le_unproxySignals lenv) (le_childHangup lenv)\<rparr>]
   \<and> trace (invoke \<lparr>cf_code = code, cf_signal = sig, cf_body = LegacyClose ls h\<rparr> w)
     = trace w
       @ map (\<lambda>(s, l). RemoveListener Process (EvSignal s) l) ls
       @ [RemoveListener Process EvExit h]
       @ (if truthy_signal sig
          then [SetTimeout 200, Kill Process (pid (procs w Process)) (the sig)]
          else Exit Process (exitCode w) #
               map ChildKill (concat (map listener_kills (listeners_for EvExit
                 (remove_last (EvExit, h)
                    (fold (\<lambda>(s, l). remove_last (EvSignal s, l)) ls (listeners (procs w Process))))))))"
  using legacy_onClose_prefix [of w lenv code sig]
  by (simp add: onClose_fields filter_term_detach invoke_legacy_fields)

text \<open>
  C6 fails as stated for the legacy entry point: in \<^verbatim>\<open>foregroundChild("cat")\<close> with a
  child that exits with code 0, the callback receives the close function before any
  listener is removed.
\<close>

theorem legacy_hands_over_before_teardown:
  "drop (length (trace (snd (foregroundChild [AStr ''cat''] (start_world False False [])))))
     (trace (legacy_onClose (fst (foregroundChild [AStr ''cat''] (start_world False False [])))
               (Some 0) None
               (snd (foregroundChild [AStr ''cat''] (start_world False False [])))))
     = [SetExitCode (JNum 0),
        CallCb \<lparr>cf_code = Some 0, cf_signal = None,
                cf_body = LegacyClose [(''SIGINT'', SigListener 0 ''SIGINT''),
                                       (''SIGTERM'', SigListener 1 ''SIGTERM'')] (ChildHangup 2)\<rparr>,
        RemoveListener Process (EvSignal ''SIGINT'') (SigListener 0 ''SIGINT''),
        RemoveListener Process (EvSignal ''SIGTERM'') (SigListener 1 ''SIGTERM''),
        RemoveListener Process EvExit (ChildHangup 2),
        Exit Process (JNum 0)]"
  by (simp add: legacy_onClose_eq call_cb_def Let_def foregroundChild_fields invoke_legacy_fields
      record_call_fields set_exitCode_def eval_defs code_value_def remove_last_def
      listeners_for_simps)

section \<open>Teardown of the relays\<close>

text \<open>
  C5, as the code has it. Let the host's signal list have no repeats and let the world be
  fresh for the parent. After \<^verbatim>\<open>spawn\<close> and the close listener \<^verbatim>\<open>onClose\<close>, every process
  object has the listeners it had before the spawn, the child keeps only the close
  listener in addition to what it had, and the pipes are as before; the close listener
  makes one detach call for every attach call; detaching signals, messages or streams once
  more changes no listener and no pipe, and without IPC the message detach changes nothing
  at all. In the legacy entry point nothing is detached at the close event when the
  callback does not invoke the close function, invoking the close function restores the
  parent's listeners for every event other than the message event, and no pipe is made.
\<close>

theorem relays_torn_down_at_close:
  assumes "distinct (signal_list w)"
    and "fresh_world (parent_of options0) w"
    and "spawn file args0 options0 w = (env, w1)"
    and "onClose env code sig w1 = w2"
    and "foregroundChild a w = (lenv, lw1)"
  shows "listeners (procs w2 q) = listeners (procs w q)
   \<and> c_listeners (child w2) = c_listeners (child w) @ [(EvClose, pe_onClose env)]
   \<and> pipes w2 = pipes w
   \<and> trace w2
     = trace w1
       @ unproxy_calls (pe_unproxyMessages env)
       @ map (\<lambda>(a, b). Unpipe a b) (stream_pairs (parent_of options0) (child w))
       @ map (\<lambda>(s, l). RemoveListener (parent_of options0) (EvSignal s) l)
           (sig_entries (next_id w) (signal_list w))
       @ [RemoveListener (parent_of options0) EvExit (pe_onParentExit env),
          Resolve \<lparr>cf_code = code, cf_signal = sig, cf_body = ModernClose (parent_of options0)\<rparr>]
   \<and> listeners (procs (unproxySignals (parent_of options0) (pe_unproxySignals env) w2) q)
       = listeners (procs w2 q)
   \<and> listeners (procs (unproxyMessages (pe_unproxyMessages env) w2) q) = listeners (procs w2 q)
   \<and> c_listeners (child (unproxyMessages (pe_unproxyMessages env) w2)) = c_listeners (child w2)
   \<and> pipes (unproxyStreams (parent_of options0) w2) = pipes w2
   \<and> (\<not> has_send (procs w (parent_of options0)) \<longrightarrow>
         unproxyMessages (pe_unproxyMessages env) w' = w')
   \<and> (h_invocations (le_cb lenv) = 0 \<longrightarrow>
         procs (legacy_onClose lenv code sig lw1) = procs lw1)
   \<and> filter (\<lambda>el. fst el \<noteq> EvMessage)
         (listeners (procs (invoke \<lparr>cf_code = code, cf_signal = sig,
                               cf_body = LegacyClose (le_unproxySignals lenv) (le_childHangup lenv)\<rparr>
                       lw1) Process))
       = filter (\<lambda>el. fst el \<noteq> EvMessage) (listeners (procs w Process))
   \<and> pipes lw1 = pipes w"
proof -
  let ?p = "parent_of options0"
  let ?c = "SpawnCall (case field_value (opt_spawn (case options0 of None \<Rightarrow> empty_options | Some opts \<Rightarrow> opts)) of
                        Some f \<Rightarrow> f | None \<Rightarrow> CpSpawn)
             (AStr file) (map AStr (case args0 of None \<Rightarrow> [] | Some a \<Rightarrow> a))
             (spawn_options_of (case options0 of None \<Rightarrow> empty_options | Some opts \<Rightarrow> opts)
                (has_send (procs w ?p)))"
  let ?w0 = "record_call ?c w"
  have d0: "distinct (signal_list ?w0)" using assms(1) by (simp add: record_call_fields)
  have f0: "fresh_world ?p ?w0" using assms(2) by (simp add: fresh_world_record_call)
  have env: "env = fst (proxy ?p ?w0)" and w1: "w1 = snd (proxy ?p ?w0)"
    using assms(3) by (simp_all add: spawn_eq)
  have w2: "w2 = onClose (fst (proxy ?p ?w0)) code sig (snd (proxy ?p ?w0))"
    using assms(4) env w1 by simp
  have lenv: "lenv = fst (foregroundChild a w)" and lw1: "lw1 = snd (foregroundChild a w)"
    using assms(5) by simp_all
  have 1: "listeners (procs w2 r) = listeners (procs w r)" for r
    using proxy_close_listeners [OF d0, of ?p code sig r] by (simp add: w2 record_call_fields)
  have 2: "c_listeners (child w2) = c_listeners (child w) @ [(EvClose, pe_onClose env)]"
    using proxy_close_child [of ?p ?w0 code sig]
    by (simp add: w2 env record_call_fields proxy_fields)
  have 3: "pipes w2 = pipes w"
    using proxy_close_pipes [OF f0, of code sig] by (simp add: w2 record_call_fields)
  have us: "pe_unproxySignals env = sig_entries (next_id w) (signal_list w)"
    by (simp add: env proxy_fields record_call_fields sig_map_distinct [OF assms(1)])
  have pp: "pe_parent env = ?p" by (simp add: env proxy_fields)
  have sp: "stream_pairs ?p (child w1) = stream_pairs ?p (child w)"
    by (simp add: stream_pairs_def w1 proxy_fields record_call_fields)
  have 4: "trace w2
     = trace w1
       @ unproxy_calls (pe_unproxyMessages env)
       @ map (\<lambda>(a, b). Unpipe a b) (stream_pairs ?p (child w))
       @ map (\<lambda>(s, l). RemoveListener ?p (EvSignal s) l) (sig_entries (next_id w) (signal_list w))
       @ [RemoveListener ?p EvExit (pe_onParentExit env),
          Resolve \<lparr>cf_code = code, cf_signal = sig, cf_body = ModernClose ?p\<rparr>]"
    using assms(4) [symmetric] by (simp add: onClose_fields us pp sp)
  have 5: "listeners (procs (unproxySignals ?p (pe_unproxySignals env) w2) q) = listeners (procs w2 q)"
    using proxy_second_detach(1) [OF d0 f0, of code sig q]
    by (simp add: w2 env 1 [unfolded w2] record_call_fields)
  have 6: "listeners (procs (unproxyMessages (pe_unproxyMessages env) w2) q) = listeners (procs w2 q)"
    using proxy_second_detach(2) [OF d0 f0, of code sig q]
    by (simp add: w2 env 1 [unfolded w2] record_call_fields)
  have 7: "c_listeners (child (unproxyMessages (pe_unproxyMessages env) w2)) = c_listeners (child w2)"
    using proxy_second_detach(3) [OF d0 f0, of code sig] proxy_close_child [of ?p ?w0 code sig]
    by (simp add: w2 env)
  have 8: "pipes (unproxyStreams ?p w2) = pipes w2"
    using proxy_second_detach(4) [OF d0 f0, of code sig] 3
    by (simp add: w2 record_call_fields)
  have 9: "unproxyMessages (pe_unproxyMessages env) w' = w'" if "\<not> has_send (procs w ?p)"
    using that by (simp add: env proxy_fields record_call_fields)
  have 10: "procs (legacy_onClose lenv code sig lw1) = procs lw1" if "h_invocations (le_cb lenv) = 0"
    using that by (rule legacy_idle_handler)
  have 11: "filter (\<lambda>el. fst el \<noteq> EvMessage)
         (listeners (procs (invoke \<lparr>cf_code = code, cf_signal = sig,
                               cf_body = LegacyClose (le_unproxySignals lenv) (le_childHangup lenv)\<rparr>
                       lw1) Process))
       = filter (\<lambda>el. fst el \<noteq> EvMessage) (listeners (procs w Process))"
    unfolding lenv lw1 by (rule legacy_invoke_listeners [OF assms(1)])
  have 12: "pipes lw1 = pipes w"
    by (simp add: lw1 foregroundChild_fields)
  show ?thesis using 1 2 3 4 5 6 7 8 9 10 11 12 by blast
qed

text \<open>C5 as amended, at a parent with IPC, a child with three stream objects and one foreign listener.\<close>

theorem relays_torn_down_at_close_witness:
  "distinct (signal_list (start_world True True [(EvMessage, Foreign 9)]))
   \<and> fresh_world (parent_of None) (start_world True True [(EvMessage, Foreign 9)])
   \<and> listeners (procs (snd (spawn ''cat'' None None (start_world True True [(EvMessage, Foreign 9)]))) Process)
       = [(EvMessage, Foreign 9),
          (EvSignal ''SIGINT'', SigListener 0 ''SIGINT''),
          (EvSignal ''SIGTERM'', SigListener 1 ''SIGTERM''),
          (EvMessage, ParentListener 2),
          (EvExit, OnParentExit 3)]
   \<and> pipes (snd (spawn ''cat'' None None (start_world True True [(EvMessage, Foreign 9)])))
       = [(ChildStdout, ParentStdout Process), (ChildStderr, ParentStderr Process),
          (ParentStdin Process, ChildStdin)]
   \<and> listeners (procs
         (onClose (fst (spawn ''cat'' None None (start_world True True [(EvMessage, Foreign 9)])))
            (Some 0) None
            (snd (spawn ''cat'' None None (start_world True True [(EvMessage, Foreign 9)])))) Process)
       = [(EvMessage, Foreign 9)]
   \<and> c_listeners (child
         (onClose (fst (spawn ''cat'' None None (start_world True True [(EvMessage, Foreign 9)])))
            (Some 0) None
            (snd (spawn ''cat'' None None (start_world True True [(EvMessage, Foreign 9)])))))
       = [(EvClose, OnClose 3)]
   \<and> pipes
         (onClose (fst (spawn ''cat'' None None (start_world True True [(EvMessage, Foreign 9)])))
            (Some 0) None
            (snd (spawn ''cat'' None None (start_world True True [(EvMessage, Foreign 9)]))))
       = []"
proof -
  let ?w = "start_world True True [(EvMessage, Foreign 9)]"
  let ?s = "spawn ''cat'' None None ?w"
  let ?l = "foregroundChild [AStr ''cat''] ?w"
  have h1: "distinct (signal_list ?w)" by (simp add: start_world_def)
  have h2: "fresh_world (parent_of None) ?w"
    by (simp add: fresh_world_def start_world_def parent_of_def)
  have h3: "?s = (fst ?s, snd ?s)" by simp
  have h4: "onClose (fst ?s) (Some 0) None (snd ?s) = onClose (fst ?s) (Some 0) None (snd ?s)" by simp
  have h5: "?l = (fst ?l, snd ?l)" by simp
  have a: "listeners (procs (snd ?s) Process)
       = [(EvMessage, Foreign 9),
          (EvSignal ''SIGINT'', SigListener 0 ''SIGINT''),
          (EvSignal ''SIGTERM'', SigListener 1 ''SIGTERM''),
          (EvMessage, ParentListener 2),
          (EvExit, OnParentExit 3)]"
    by (simp add: spawn_eq proxy_fields record_call_fields parent_of_def eval_defs)
  have b: "pipes (snd ?s)
       = [(ChildStdout, ParentStdout Process), (ChildStderr, ParentStderr Process),
          (ParentStdin Process, ChildStdin)]"
    by (simp add: spawn_eq proxy_fields record_call_fields parent_of_def eval_defs)
  have e: "pe_onClose (fst ?s) = OnClose 3"
    by (simp add: spawn_eq proxy_fields record_call_fields parent_of_def eval_defs)
  from relays_torn_down_at_close [OF h1 h2 h3 h4 h5, of Process ?w]
  show ?thesis using h1 h2 a b e by (simp add: start_world_def)
qed

text \<open>
  C5 fails as stated for the legacy entry point: with a callback that does not invoke the
  close function, the signal listeners and the exit listener are still registered after
  the child's close event has been handled.
\<close>

theorem legacy_relays_outlive_close:
  "listeners (procs (start_world False False []) Process) = []
   \<and> le_cb (fst (foregroundChild
         [AStr ''cat'', AFun \<lparr>h_set_exit = None, h_invocations = 0, h_result = JUndefined\<rparr>]
         (start_world False False [])))
       = \<lparr>h_set_exit = None, h_invocations = 0, h_result = JUndefined\<rparr>
   \<and> listeners (procs
         (legacy_onClose
            (fst (foregroundChild
                    [AStr ''cat'', AFun \<lparr>h_set_exit = None, h_invocations = 0, h_result = JUndefined\<rparr>]
                    (start_world False False [])))
            (Some 0) None
            (snd (foregroundChild
                    [AStr ''cat'', AFun \<lparr>h_set_exit = None, h_invocations = 0, h_result = JUndefined\<rparr>]
                    (start_world False False [])))) Process)
       = [(EvSignal ''SIGINT'', SigListener 0 ''SIGINT''),
          (EvSignal ''SIGTERM'', SigListener 1 ''SIGTERM''),
          (EvExit, ChildHangup 2)]"
  by (simp add: legacy_onClose_eq call_cb_def Let_def foregroundChild_fields
      record_call_fields set_exitCode_def eval_defs)

end
